theory Spec2Isabelle
  imports Main "HOL-Library.Sublist" "HOL-Library.Char_ord" "HOL-Library.List_Lexorder"
begin

section \<open>Syntax trees and text slicing (src/ast\_utils.py)\<close>

text \<open>
  A tree-sitter node as the extractors read it: its concrete type string, whether it is a
  named node, the field name under which its parent holds it (if any), its byte range, its
  start and end rows, and its ordered children.  Every access the source makes
  (\<open>node.type\<close>, \<open>node.children\<close>, \<open>node.named_children\<close>,
  \<open>node.child_by_field_name\<close>, \<open>node.start_byte\<close>, \<open>node.start_point[0]\<close>)
  is a function of these.
\<close>

datatype node =
  Node (ntype: string) (is_named: bool) (field_name: "string option")
       (start_byte: nat) (end_byte: nat) (start_row: nat) (end_row: nat)
       (children: "node list")

definition named_children :: "node \<Rightarrow> node list" where
  "named_children n = filter is_named (children n)"

definition child_by_field_name :: "node \<Rightarrow> string \<Rightarrow> node option" where
  "child_by_field_name n f = find (\<lambda>c. field_name c = Some f) (children n)"

text \<open>\<open>find_child_by_field_name\<close>: the same lookup, with \<open>None\<close> for a missing node.\<close>

definition find_child_by_field_name :: "node option \<Rightarrow> string \<Rightarrow> node option" where
  "find_child_by_field_name node f =
     (case node of None \<Rightarrow> None | Some n \<Rightarrow> child_by_field_name n f)"

text \<open>Python's \<open>content_bytes[s:e]\<close> for \<open>s \<le> e\<close>.\<close>

definition byte_slice :: "nat \<Rightarrow> nat \<Rightarrow> 'a list \<Rightarrow> 'a list" where
  "byte_slice s e bs = take (e - s) (drop s bs)"

text \<open>
  The text of a node that is present: the inner \<open>if\<close>/\<open>else\<close> of
  \<open>get_node_text\<close>.  The buffer is a byte list; \<open>dec\<close> stands for
  \<open>bytes.decode('utf-8', errors='replace')\<close>, which is total (it never raises).
  The \<open>except IndexError\<close> branch of the source is unreachable, since slicing never
  raises, and so has no counterpart here.
\<close>

definition node_text :: "(string \<Rightarrow> string) \<Rightarrow> node \<Rightarrow> string \<Rightarrow> string" where
  "node_text dec n content_bytes =
     (if start_byte n < end_byte n \<and> end_byte n \<le> length content_bytes
      then dec (byte_slice (start_byte n) (end_byte n) content_bytes)
      else [])"

text \<open>\<open>get_node_text\<close>: a missing node gives \<open>None\<close>.\<close>

definition get_node_text :: "(string \<Rightarrow> string) \<Rightarrow> node option \<Rightarrow> string \<Rightarrow> string option" where
  "get_node_text dec node content_bytes =
     (case node of
        None \<Rightarrow> None
      | Some n \<Rightarrow> Some (node_text dec n content_bytes))"

text \<open>
  The decoder on a buffer of ASCII bytes, where UTF-8 decoding returns the same characters.
  The concrete inputs below are ASCII.
\<close>

definition decode_ascii :: "string \<Rightarrow> string" where
  "decode_ascii bs = bs"

text \<open>\<open>x or default\<close> for an optional string: \<open>None\<close> and \<open>""\<close> are falsy.\<close>

definition or_default :: "string option \<Rightarrow> string \<Rightarrow> string" where
  "or_default x d = (case x of None \<Rightarrow> d | Some t \<Rightarrow> if t = [] then d else t)"

text \<open>
  \<open>is_node_type\<close> and the \<open>node_types\<close> table of \<open>LANG_CONFIG\<close>
  (src/config.py), which holds an entry for Python only.  An unknown language or an unknown
  key gives \<open>False\<close>.
\<close>

definition python_node_types :: "(string \<times> string) list" where
  "python_node_types =
     [(''func_def'', ''function_definition''), (''class_def'', ''class_definition''),
      (''identifier'', ''identifier''), (''block'', ''block''),
      (''string'', ''string''), (''expression_statement'', ''expression_statement'')]"

definition node_types_of :: "string \<Rightarrow> (string \<times> string) list" where
  "node_types_of lang = (if lang = ''python'' then python_node_types else [])"

definition is_node_type :: "node option \<Rightarrow> string \<Rightarrow> string \<Rightarrow> bool" where
  "is_node_type node lang type_key =
     (case node of
        None \<Rightarrow> False
      | Some n \<Rightarrow>
          (case map_of (node_types_of lang) type_key of
             None \<Rightarrow> False
           | Some expected \<Rightarrow> ntype n = expected))"

section \<open>Python string and path operations\<close>

text \<open>
  Python \<open>str\<close> values are modelled as \<open>string\<close>; the characters the source
  inspects (separators, dots, quotes, ASCII letters and whitespace) are single characters in
  both readings.
\<close>

text \<open>\<open>s.split(c)\<close> for a one-character separator: never empty, keeps empty pieces.\<close>

fun split_on :: "char \<Rightarrow> string \<Rightarrow> string list" where
  "split_on c [] = [[]]"
| "split_on c (x # xs) =
     (if x = c then [] # split_on c xs
      else (case split_on c xs of [] \<Rightarrow> [[x]] | y # ys \<Rightarrow> (x # y) # ys))"

text \<open>\<open>sep.join(xs)\<close>.\<close>

fun py_join :: "string \<Rightarrow> string list \<Rightarrow> string" where
  "py_join sep [] = []"
| "py_join sep [x] = x"
| "py_join sep (x # y # ys) = x @ sep @ py_join sep (y # ys)"

text \<open>\<open>s.replace(os.sep, '.')\<close> with the POSIX separator.\<close>

definition replace_sep :: "string \<Rightarrow> string" where
  "replace_sep s = map (\<lambda>c. if c = CHR ''/'' then CHR ''.'' else c) s"

text \<open>\<open>s.startswith(p)\<close> and \<open>s.endswith(p)\<close>.\<close>

definition startswith :: "string \<Rightarrow> string \<Rightarrow> bool" where
  "startswith s p = prefix p s"

definition endswith :: "string \<Rightarrow> string \<Rightarrow> bool" where
  "endswith s p = suffix p s"

text \<open>\<open>s.rfind(c)\<close>: the last index of \<open>c\<close>, \<open>None\<close> standing for \<open>-1\<close>.\<close>

definition rfind :: "char \<Rightarrow> string \<Rightarrow> nat option" where
  "rfind c s = find (\<lambda>i. s ! i = c) (rev [0..<length s])"

text \<open>
  \<open>PurePath.suffix\<close> and \<open>PurePath.stem\<close> of a path whose final component is
  \<open>name\<close>: the last dot splits the name unless it is its first or its last character.
\<close>

definition path_suffix :: "string \<Rightarrow> string" where
  "path_suffix name =
     (case rfind (CHR ''.'') name of
        None \<Rightarrow> []
      | Some i \<Rightarrow> if 0 < i \<and> i + 1 < length name then drop i name else [])"

definition path_stem :: "string \<Rightarrow> string" where
  "path_stem name =
     (case rfind (CHR ''.'') name of
        None \<Rightarrow> name
      | Some i \<Rightarrow> if 0 < i \<and> i + 1 < length name then take i name else name)"

text \<open>
  \<open>Path(s).parts\<close> for a relative POSIX path string, as \<open>relative_to\<close> produces it:
  the pieces between separators, without empty pieces and without \<open>.\<close> pieces.
\<close>

definition path_parts :: "string \<Rightarrow> string list" where
  "path_parts s = filter (\<lambda>p. p \<noteq> [] \<and> p \<noteq> ''.'') (split_on (CHR ''/'') s)"

text \<open>\<open>str(path)\<close> of a relative path with the given parts.\<close>

definition path_str :: "string list \<Rightarrow> string" where
  "path_str parts = (if parts = [] then ''.'' else py_join ''/'' parts)"

text \<open>\<open>s.lower()\<close> on ASCII letters; other characters are left as they are.\<close>

definition lower_char :: "char \<Rightarrow> char" where
  "lower_char c =
     (if (65::nat) \<le> of_char c \<and> (of_char c :: nat) \<le> 90
      then char_of ((of_char c :: nat) + 32) else c)"

definition py_lower :: "string \<Rightarrow> string" where
  "py_lower s = map lower_char s"

text \<open>\<open>needle in s\<close> for strings.\<close>

definition py_contains :: "string \<Rightarrow> string \<Rightarrow> bool" where
  "py_contains s needle = list_ex (\<lambda>t. prefix needle t) (suffixes s)"

section \<open>The Python FQN builder (src/extract\_python.py)\<close>

text \<open>
  The module base path computed in the first lines of \<open>_build_python_fqn\<close>.
  \<open>split\<close> never returns an empty list, so \<open>module_parts[-1]\<close> is always defined.
\<close>

definition base_module_path :: "string \<Rightarrow> string" where
  "base_module_path file_rel_path =
     (let module_parts0 = split_on (CHR ''.'') (replace_sep file_rel_path);
          module_parts1 = (if last module_parts0 = ''py'' then butlast module_parts0
                           else module_parts0);
          module_parts = (if module_parts1 \<noteq> [] \<and> last module_parts1 = ''__init__''
                          then butlast module_parts1 else module_parts1)
      in py_join ''.'' (filter (\<lambda>p. p \<noteq> []) module_parts))"

text \<open>
  \<open>_build_python_fqn\<close>.  \<open>if parent_fqn:\<close> holds for a parent that is neither
  \<open>None\<close> nor the empty string.
\<close>

definition build_python_fqn :: "string \<Rightarrow> string \<Rightarrow> string option \<Rightarrow> string" where
  "build_python_fqn file_rel_path item_name parent_fqn =
     (let base = base_module_path file_rel_path in
      case (if parent_fqn = Some [] then None else parent_fqn) of
        Some p \<Rightarrow>
          if base \<noteq> [] \<and> startswith p base
          then (if \<not> endswith p item_name then p @ ''.'' @ item_name else p)
          else p @ ''.'' @ item_name
      | None \<Rightarrow>
          if base \<noteq> [] then base @ ''.'' @ item_name else item_name)"

section \<open>Component identifiers (src/cli.py)\<close>

text \<open>
  \<open>find_component_id_for_lib\<close>.  \<open>lang_map\<close> is the module-level table
  \<open>LANG_MAP\<close> (extension to language), which \<open>main\<close> may extend with \<open>.pyi\<close>.
\<close>

definition LANG_MAP :: "(string \<times> string) list" where
  "LANG_MAP = [(''.py'', ''python'')]"

definition find_component_id_for_lib ::
  "(string \<times> string) list \<Rightarrow> string \<Rightarrow> string \<Rightarrow> string" where
  "find_component_id_for_lib lang_map rel_path_str library_name =
     (let parts0 = path_parts rel_path_str;
          parts =
            (if parts0 = [] then []
             else
               let known_suffixes = map fst lang_map @ [''.pyi''];
                   last1 = (if list_ex (\<lambda>sfx. endswith (last parts0) sfx) known_suffixes
                            then path_stem (last parts0) else last parts0);
                   parts1 = butlast parts0 @ [last1]
               in if last1 \<in> set [''__init__'', ''mod'', ''lib'']
                  then (if length parts1 > 1 then butlast parts1
                        else if last1 \<noteq> library_name then butlast parts1
                        else parts1)
                  else parts1)
      in if parts = [] then library_name
         else library_name @ ''.'' @ py_join ''.'' parts)"

section \<open>Python signatures (src/extract\_python.py)\<close>

record param_info =
  p_name :: string
  p_type :: string
  p_default_value :: "string option"

record signature =
  params :: "param_info list"
  return_type :: string
  async :: bool

text \<open>
  The body of the loop of \<open>extract_py_signature\<close>: the \<open>param_info\<close> dictionary
  after the \<open>if\<close>/\<open>elif\<close> chain over the child's node type.  A child of no listed
  type keeps the name \<open>_unknown_\<close>.
\<close>

definition py_param_info :: "(string \<Rightarrow> string) \<Rightarrow> string \<Rightarrow> node \<Rightarrow> param_info" where
  "py_param_info dec content_bytes child =
     (if ntype child = ''identifier'' then
        \<lparr>p_name = node_text dec child content_bytes, p_type = ''unknown'',
         p_default_value = None\<rparr>
      else if ntype child = ''typed_parameter'' then
        (let name_node =
               (case child_by_field_name child ''name'' of
                  Some n \<Rightarrow> Some n
                | None \<Rightarrow>
                    (case children child of
                       [] \<Rightarrow> None
                     | c # _ \<Rightarrow> if ntype c = ''identifier'' then Some c else None));
             type_node = child_by_field_name child ''type''
         in \<lparr>p_name = (case name_node of Some n \<Rightarrow> node_text dec n content_bytes
                                        | None \<Rightarrow> ''_anon_''),
             p_type = (case type_node of Some t \<Rightarrow> node_text dec t content_bytes
                                        | None \<Rightarrow> ''unknown''),
             p_default_value = None\<rparr>)
      else if ntype child = ''default_parameter'' then
        (let name_node = child_by_field_name child ''name'';
             type_node = child_by_field_name child ''type'';
             value_node = child_by_field_name child ''value''
         in \<lparr>p_name = (case name_node of Some n \<Rightarrow> node_text dec n content_bytes
                                        | None \<Rightarrow> ''_anon_''),
             p_type = (case type_node of Some t \<Rightarrow> node_text dec t content_bytes
                                        | None \<Rightarrow> ''unknown''),
             p_default_value = get_node_text dec value_node content_bytes\<rparr>)
      else if ntype child = ''list_splat_pattern'' \<or> ntype child = ''tuple_pattern'' then
        (let name_node = (case named_children child of [] \<Rightarrow> None | c # _ \<Rightarrow> Some c)
         in \<lparr>p_name = (case name_node of
                          Some n \<Rightarrow> if ntype n = ''identifier''
                                    then ''*'' @ node_text dec n content_bytes else ''*args''
                        | None \<Rightarrow> ''*args''),
             p_type = ''tuple'', p_default_value = None\<rparr>)
      else if ntype child = ''dictionary_splat_pattern'' then
        (let name_node = (case named_children child of [] \<Rightarrow> None | c # _ \<Rightarrow> Some c)
         in \<lparr>p_name = (case name_node of
                          Some n \<Rightarrow> if ntype n = ''identifier''
                                    then ''**'' @ node_text dec n content_bytes else ''**kwargs''
                        | None \<Rightarrow> ''**kwargs''),
             p_type = ''dict'', p_default_value = None\<rparr>)
      else if ntype child = ''*'' then
        \<lparr>p_name = ''*'', p_type = ''_marker_args_'', p_default_value = None\<rparr>
      else if ntype child = ''/'' then
        \<lparr>p_name = ''/'', p_type = ''_marker_pos_only_'', p_default_value = None\<rparr>
      else
        \<lparr>p_name = ''_unknown_'', p_type = ''unknown'', p_default_value = None\<rparr>)"

text \<open>
  \<open>extract_py_signature\<close>: the \<open>async\<close> flag, the entries of the named children of
  the \<open>parameters\<close> node in source order (an entry still named \<open>_unknown_\<close> is not
  appended), and the return type.
\<close>

definition extract_py_signature :: "(string \<Rightarrow> string) \<Rightarrow> node \<Rightarrow> string \<Rightarrow> signature" where
  "extract_py_signature dec func_node content_bytes =
     (let is_async =
            (case child_by_field_name func_node ''async'' of
               Some _ \<Rightarrow> True
             | None \<Rightarrow>
                 (case children func_node of [] \<Rightarrow> False | c # _ \<Rightarrow> ntype c = ''async''));
          ps =
            (case find_child_by_field_name (Some func_node) ''parameters'' of
               None \<Rightarrow> []
             | Some param_list_node \<Rightarrow>
                 filter (\<lambda>param. p_name param \<noteq> ''_unknown_'')
                   (map (py_param_info dec content_bytes) (named_children param_list_node)));
          ret =
            (case find_child_by_field_name (Some func_node) ''return_type'' of
               None \<Rightarrow> ''unknown''
             | Some return_type_node \<Rightarrow>
                 or_default (get_node_text dec (Some return_type_node) content_bytes) ''unknown'')
      in \<lparr>params = ps, return_type = ret, async = is_async\<rparr>)"

subsection \<open>The function \<open>def f(a, b: T = 5, *args, **kwargs)\<close> as a tree\<close>

text \<open>Leaves: an anonymous token, a named leaf, and a named leaf held under a field.\<close>

definition tok :: "string \<Rightarrow> nat \<Rightarrow> nat \<Rightarrow> node" where
  "tok ty s e = Node ty False None s e 0 0 []"

definition leaf :: "string \<Rightarrow> nat \<Rightarrow> nat \<Rightarrow> node" where
  "leaf ty s e = Node ty True None s e 0 0 []"

definition fleaf :: "string \<Rightarrow> string \<Rightarrow> nat \<Rightarrow> nat \<Rightarrow> node" where
  "fleaf f ty s e = Node ty True (Some f) s e 0 0 []"

definition sig_src :: string where
  "sig_src = ''def f(a, b: T = 5, *args, **kwargs):'' @ [CHR 0x0A] @ ''    pass'' @ [CHR 0x0A]"

text \<open>
  The node for \<open>b: T = 5\<close>, with its \<open>name\<close>, \<open>type\<close> and \<open>value\<close> fields, under a
  given node type.  The tree-sitter Python grammar gives a parameter with both an annotation
  and a default the type \<open>typed_default_parameter\<close>; its \<open>default_parameter\<close> is a
  parameter with a default and no annotation.
\<close>

definition sig_param_b :: "string \<Rightarrow> node" where
  "sig_param_b ty =
     Node ty True None 9 17 0 0
       [fleaf ''name'' ''identifier'' 9 10, tok '':'' 10 11,
        Node ''type'' True (Some ''type'') 12 13 0 0 [leaf ''identifier'' 12 13],
        tok ''='' 14 15, fleaf ''value'' ''integer'' 16 17]"

definition sig_func :: "string \<Rightarrow> node" where
  "sig_func ty =
     Node ''function_definition'' True None 0 45 0 1
       [tok ''def'' 0 3, fleaf ''name'' ''identifier'' 4 5,
        Node ''parameters'' True (Some ''parameters'') 5 35 0 0
          [tok ''('' 5 6, leaf ''identifier'' 6 7, tok '','' 7 8,
           sig_param_b ty, tok '','' 17 18,
           Node ''list_splat_pattern'' True None 19 24 0 0
             [tok ''*'' 19 20, leaf ''identifier'' 20 24],
           tok '','' 24 25,
           Node ''dictionary_splat_pattern'' True None 26 34 0 0
             [tok ''**'' 26 28, leaf ''identifier'' 28 34],
           tok '')'' 34 35],
        tok '':'' 35 36,
        Node ''block'' True (Some ''body'') 41 45 1 1 [leaf ''pass_statement'' 41 45]]"

section \<open>Docstrings (src/ast\_utils.py)\<close>

subsection \<open>\<open>str.strip\<close> and \<open>textwrap.dedent\<close>\<close>

text \<open>
  The ASCII characters \<open>str.strip()\<close> removes: tab, line feed, vertical tab, form feed,
  carriage return, the four separators \<open>0x1c\<close> to \<open>0x1f\<close>, and the space.
\<close>

definition is_py_space :: "char \<Rightarrow> bool" where
  "is_py_space c =
     (let k = (of_char c :: nat) in (9 \<le> k \<and> k \<le> 13) \<or> (28 \<le> k \<and> k \<le> 32))"

definition py_strip :: "string \<Rightarrow> string" where
  "py_strip s = rev (dropWhile is_py_space (rev (dropWhile is_py_space s)))"

text \<open>The characters \<open>[ \t]\<close> of the two regular expressions of \<open>textwrap\<close>.\<close>

definition is_blank_char :: "char \<Rightarrow> bool" where
  "is_blank_char c = (c = CHR '' '' \<or> c = CHR 0x09)"

text \<open>
  The index at which \<open>zip(margin, indent)\<close> first holds two different characters, if any.
\<close>

fun first_mismatch :: "string \<Rightarrow> string \<Rightarrow> nat option" where
  "first_mismatch (x # xs) (y # ys) =
     (if x \<noteq> y then Some 0 else map_option Suc (first_mismatch xs ys))"
| "first_mismatch _ _ = None"

text \<open>One round of the loop of \<open>dedent\<close> over the indents.\<close>

definition dedent_margin_step :: "string option \<Rightarrow> string \<Rightarrow> string option" where
  "dedent_margin_step margin indent =
     (case margin of
        None \<Rightarrow> Some indent
      | Some m \<Rightarrow>
          if startswith indent m then Some m
          else if startswith m indent then Some indent
          else (case first_mismatch m indent of
                  Some i \<Rightarrow> Some (take i m)
                | None \<Rightarrow> Some m))"

text \<open>
  \<open>textwrap.dedent\<close> (the regular-expression implementation of CPython up to 3.13), line
  by line: a line of blanks only becomes empty; the indents are the leading blanks of the
  lines that hold another character; the margin is folded over them; a non-empty margin is
  removed from the start of every line that starts with it.
\<close>

definition dedent :: "string \<Rightarrow> string" where
  "dedent text =
     (let lines = map (\<lambda>l. if l \<noteq> [] \<and> list_all is_blank_char l then [] else l)
                    (split_on (CHR 0x0A) text);
          indents = map (takeWhile is_blank_char)
                      (filter (\<lambda>l. dropWhile is_blank_char l \<noteq> []) lines);
          margin = foldl dedent_margin_step None indents
      in case margin of
           None \<Rightarrow> py_join [CHR 0x0A] lines
         | Some m \<Rightarrow>
             if m = [] then py_join [CHR 0x0A] lines
             else py_join [CHR 0x0A]
                    (map (\<lambda>l. if startswith l m then drop (length m) l else l) lines))"

subsection \<open>Python: the leading string of a body\<close>

text \<open>
  The node types \<open>get_docstring_from_python_node\<close> skips as quote and prefix tokens.
\<close>

definition quote_token_types :: "string list" where
  "quote_token_types =
     [[CHR 0x22, CHR 0x22, CHR 0x22], [CHR 0x27, CHR 0x27, CHR 0x27], [CHR 0x22], [CHR 0x27],
      [CHR ''r'', CHR 0x22], [CHR ''r'', CHR 0x27], [CHR ''u'', CHR 0x22], [CHR ''u'', CHR 0x27],
      [CHR ''f'', CHR 0x22], [CHR ''f'', CHR 0x27]]"

definition get_docstring_from_python_node ::
  "(string \<Rightarrow> string) \<Rightarrow> node option \<Rightarrow> string \<Rightarrow> string option" where
  "get_docstring_from_python_node dec body_node content_bytes =
     (case body_node of
        None \<Rightarrow> None
      | Some b \<Rightarrow>
          if is_node_type (Some b) ''python'' ''block'' then
            (case named_children b of
               [] \<Rightarrow> None
             | first_statement # _ \<Rightarrow>
                 if is_node_type (Some first_statement) ''python'' ''expression_statement'' then
                   (case named_children first_statement of
                      [] \<Rightarrow> None
                    | string_node_container # _ \<Rightarrow>
                        if is_node_type (Some string_node_container) ''python'' ''string'' then
                          (let docstring_parts =
                                 map (\<lambda>c. node_text dec c content_bytes)
                                   (filter (\<lambda>c. ntype c \<notin> set quote_token_types)
                                      (children string_node_container));
                               raw_docstring = concat docstring_parts
                           in if raw_docstring \<noteq> [] then Some (py_strip (dedent raw_docstring))
                              else None)
                        else None)
                 else None)
          else None)"

subsection \<open>Rust: the comments before an item\<close>





subsection \<open>Two documented declarations as trees\<close>

text \<open>
  A function whose body starts with an indented triple-quoted string.  The children of the
  \<open>string\<close> node are the opening quotes, the content and the closing quotes; \<open>q\<close> and
  \<open>q'\<close> are the node types of the two quote tokens, and \<open>q_named\<close> tells whether they
  are named nodes.
\<close>

definition doc_src :: string where
  "doc_src =
     ''def f():'' @ [CHR 0x0A] @
     ''    '' @ [CHR 0x22, CHR 0x22, CHR 0x22, CHR 0x0A] @
     ''    line one'' @ [CHR 0x0A] @
     ''    line two'' @ [CHR 0x0A] @
     ''    '' @ [CHR 0x22, CHR 0x22, CHR 0x22, CHR 0x0A]"

definition doc_body :: "string \<Rightarrow> bool \<Rightarrow> string \<Rightarrow> node" where
  "doc_body q q_named q' =
     Node ''block'' True (Some ''body'') 13 50 1 4
       [Node ''expression_statement'' True None 13 50 1 4
          [Node ''string'' True None 13 50 1 4
             [Node q q_named None 13 16 1 1 [],
              Node ''string_content'' True None 16 47 1 4 [],
              Node q' q_named None 47 50 4 4 []]]]"









section \<open>Extraction records (src/extract\_python.py)\<close>

text \<open>
  The dictionaries the extractors return, as records.  The keys that always hold an empty
  list or dictionary (\<open>logic_ops\<close>, \<open>dependencies\<close>, \<open>test_specs_covering\<close>,
  \<open>setup\<close>, \<open>action\<close>, \<open>assertions\<close>) are left out.
\<close>

record func_record =
  fr_name :: string
  fr_qualified_name :: string
  fr_source_file :: string
  fr_language :: string
  fr_line_start :: nat
  fr_line_end :: nat
  fr_signature :: signature
  fr_docstring :: "string option"
  fr_source_code :: "string option"

record field_info =
  fi_name :: string
  fi_type :: string
  fi_scope :: string

record struct_record =
  sr_name :: string
  sr_qualified_name :: string
  sr_kind :: string
  sr_source_file :: string
  sr_language :: string
  sr_line_start :: nat
  sr_line_end :: nat
  sr_docstring :: "string option"
  sr_source_code :: "string option"
  sr_base_classes :: "string list"
  sr_fields :: "field_info list"
  sr_methods :: "func_record list"

record test_record =
  ts_id :: string
  ts_source_file :: string
  ts_scenario :: string
  ts_qualified_name :: string
  ts_language :: string
  ts_line_start :: nat
  ts_line_end :: nat
  ts_docstring :: "string option"
  ts_source_code :: "string option"

text \<open>
  \<open>extract_py_function_details\<close>; \<open>rel_path_str\<close> is
  \<open>str(file_path.relative_to(repo_root))\<close>.  A function whose name text is missing or
  empty gives \<open>None\<close>.
\<close>

definition extract_py_function_details ::
  "(string \<Rightarrow> string) \<Rightarrow> node \<Rightarrow> string \<Rightarrow> string \<Rightarrow> string option \<Rightarrow> func_record option" where
  "extract_py_function_details dec func_node rel_path_str content_bytes parent_fqn =
     (let name_node = find_child_by_field_name (Some func_node) ''name'';
          func_name = or_default (get_node_text dec name_node content_bytes) []
      in if func_name = [] then None
         else
           (let body_node = find_child_by_field_name (Some func_node) ''body''
            in Some \<lparr>fr_name = func_name,
                      fr_qualified_name = build_python_fqn rel_path_str func_name parent_fqn,
                      fr_source_file = rel_path_str,
                      fr_language = ''python'',
                      fr_line_start = start_row func_node + 1,
                      fr_line_end = end_row func_node + 1,
                      fr_signature = extract_py_signature dec func_node content_bytes,
                      fr_docstring =
                        (case body_node of
                           None \<Rightarrow> None
                         | Some b \<Rightarrow> get_docstring_from_python_node dec (Some b) content_bytes),
                      fr_source_code = get_node_text dec (Some func_node) content_bytes\<rparr>))"

text \<open>
  The class-variable heuristic in the loop over the class body: an expression statement
  whose first named child is an assignment to a plain identifier.  The key
  \<open>assignment\<close> is looked up in the \<open>node_types\<close> table like every other key.
\<close>

definition class_field_of :: "(string \<Rightarrow> string) \<Rightarrow> string \<Rightarrow> node \<Rightarrow> field_info list" where
  "class_field_of dec content_bytes child =
     (case named_children child of
        [] \<Rightarrow> []
      | expression_child # _ \<Rightarrow>
          if is_node_type (Some expression_child) ''python'' ''assignment'' then
            (let left_node = find_child_by_field_name (Some expression_child) ''left'';
                 field_name_text = or_default (get_node_text dec left_node content_bytes) []
             in if field_name_text = [] then []
                else (case left_node of
                        None \<Rightarrow> []
                      | Some l \<Rightarrow>
                          if ntype l = ''identifier''
                          then [\<lparr>fi_name = field_name_text, fi_type = ''unknown'',
                                 fi_scope = ''class''\<rparr>]
                          else []))
          else [])"

text \<open>
  \<open>extract_py_data_structure\<close>.  Each function definition among the children of the
  body is extracted with the class's qualified name as its parent FQN.
\<close>

definition extract_py_data_structure ::
  "(string \<Rightarrow> string) \<Rightarrow> node \<Rightarrow> string \<Rightarrow> string \<Rightarrow> string option \<Rightarrow> struct_record option" where
  "extract_py_data_structure dec class_node rel_path_str content_bytes parent_fqn =
     (let name_node = find_child_by_field_name (Some class_node) ''name'';
          class_name = or_default (get_node_text dec name_node content_bytes) []
      in if class_name = [] then None
         else
           (let qualified_name = build_python_fqn rel_path_str class_name parent_fqn;
                body_node = find_child_by_field_name (Some class_node) ''body'';
                base_classes =
                  (case find_child_by_field_name (Some class_node) ''superclasses'' of
                     None \<Rightarrow> []
                   | Some superclasses_node \<Rightarrow>
                       filter (\<lambda>base_name. base_name \<noteq> [])
                         (map (\<lambda>sc_node. node_text dec sc_node content_bytes)
                            (named_children superclasses_node)));
                body_children = (case body_node of None \<Rightarrow> [] | Some b \<Rightarrow> children b);
                methods =
                  List.map_filter
                    (\<lambda>child.
                       if is_node_type (Some child) ''python'' ''func_def''
                       then extract_py_function_details dec child rel_path_str content_bytes
                              (Some qualified_name)
                       else None)
                    body_children;
                fields =
                  concat
                    (map (\<lambda>child.
                            if is_node_type (Some child) ''python'' ''func_def'' then []
                            else if is_node_type (Some child) ''python'' ''expression_statement''
                            then class_field_of dec content_bytes child
                            else [])
                       body_children)
            in Some \<lparr>sr_name = class_name,
                      sr_qualified_name = qualified_name,
                      sr_kind = ''class'',
                      sr_source_file = rel_path_str,
                      sr_language = ''python'',
                      sr_line_start = start_row class_node + 1,
                      sr_line_end = end_row class_node + 1,
                      sr_docstring =
                        (case body_node of
                           None \<Rightarrow> None
                         | Some b \<Rightarrow> get_docstring_from_python_node dec (Some b) content_bytes),
                      sr_source_code = get_node_text dec (Some class_node) content_bytes,
                      sr_base_classes = base_classes,
                      sr_fields = fields,
                      sr_methods = methods\<rparr>))"

text \<open>\<open>s.replace('.py', '')\<close>: every occurrence, left to right.\<close>

fun remove_dot_py :: "string \<Rightarrow> string" where
  "remove_dot_py (a # b # c # xs) =
     (if [a, b, c] = ''.py'' then remove_dot_py xs else a # remove_dot_py (b # c # xs))"
| "remove_dot_py xs = xs"

text \<open>\<open>extract_py_test_specifications\<close>: one record, or none for a nameless function.\<close>

definition extract_py_test_specifications ::
  "(string \<Rightarrow> string) \<Rightarrow> node \<Rightarrow> string \<Rightarrow> string \<Rightarrow> test_record list" where
  "extract_py_test_specifications dec func_node rel_path_str content_bytes =
     (let name_node = find_child_by_field_name (Some func_node) ''name'';
          test_name = or_default (get_node_text dec name_node content_bytes) []
      in if test_name = [] then []
         else
           (let test_module_path = remove_dot_py (replace_sep rel_path_str);
                qualified_name = test_module_path @ ''.'' @ test_name
            in [\<lparr>ts_id = qualified_name,
                  ts_source_file = rel_path_str,
                  ts_scenario = test_name,
                  ts_qualified_name = qualified_name,
                  ts_language = ''python'',
                  ts_line_start = start_row func_node + 1,
                  ts_line_end = end_row func_node + 1,
                  ts_docstring =
                    get_docstring_from_python_node dec
                      (find_child_by_field_name (Some func_node) ''body'') content_bytes,
                  ts_source_code = get_node_text dec (Some func_node) content_bytes\<rparr>]))"

section \<open>The aggregator (src/cli.py)\<close>

text \<open>A component; \<open>function_list\<close> is its \<open>functions\<close> key.\<close>

record component =
  component_id :: string
  component_type :: string
  source_path :: string
  summary :: string
  data_structures :: "struct_record list"
  function_list :: "func_record list"
  test_specifications :: "test_record list"

text \<open>
  The part of \<open>repo_ir\<close> that \<open>process_file\<close> changes.  The dictionary of components
  is a list of pairs in insertion order, which is the order a Python dictionary keeps and
  the order of its \<open>values()\<close>.
\<close>

record repo_ir =
  languages_present :: "string set"
  components :: "(string \<times> component) list"

text \<open>
  What opening and parsing a file gives: an exception from \<open>open\<close> or \<open>read\<close>, no
  tree from \<open>parse_code\<close>, or the bytes and the root node.
\<close>

datatype file_contents = Unreadable | NoTree | Parsed string node

text \<open>
  A file handed to \<open>process_file\<close>: the parts of \<open>root_for_analysis\<close>, the parts of
  the file's path below it, and its contents.
\<close>

record source_file =
  root_parts :: "string list"
  rel_parts :: "string list"
  contents :: file_contents

definition IGNORE_DIRS :: "string list" where
  "IGNORE_DIRS =
     [''.git'', ''.svn'', ''.hg'', ''target'', ''build'', ''dist'', ''node_modules'',
      ''venv'', ''.venv'', ''env'', ''__pycache__'', ''.pytest_cache'',
      ''.mypy_cache'', ''.ruff_cache'', ''.vscode'', ''.idea'', ''docs'', ''examples'',
      ''site-packages'', ''migrations'']"

definition IGNORE_FILES :: "string list" where
  "IGNORE_FILES =
     [''.gitignore'', ''LICENSE'', ''MANIFEST.in'', ''requirements.txt'', ''setup.py'',
      ''setup.cfg'', ''Pipfile'', ''Pipfile.lock'', ''poetry.lock'', ''uv.lock'',
      ''.DS_Store'', ''pyproject.toml'', ''Cargo.toml'', ''Cargo.lock'', ''package.json'',
      ''go.mod'']"

text \<open>\<open>file_path.name\<close>: the last part, empty for a path with no part below its root.\<close>

definition file_name :: "string list \<Rightarrow> string" where
  "file_name parts = (if parts = [] \<or> last parts = ''/'' then [] else last parts)"

text \<open>
  \<open>is_test_file\<close>: the lower-cased file name contains \<open>test\<close>, or some part of the
  whole path, lower-cased, is \<open>test\<close> or \<open>tests\<close>.
\<close>

definition is_test_file :: "string list \<Rightarrow> bool" where
  "is_test_file parts =
     (py_contains (py_lower (file_name parts)) ''test'' \<or>
      list_ex (\<lambda>p. py_lower p \<in> set [''test'', ''tests'']) parts)"

text \<open>
  One round of the loop over the children of the root node: the records the child adds to
  \<open>new_structs\<close>, \<open>new_funcs\<close> and \<open>new_tests\<close>.
\<close>

definition top_level_records ::
  "(string \<Rightarrow> string) \<Rightarrow> (string \<times> string) list \<Rightarrow> string \<Rightarrow> bool \<Rightarrow> string \<Rightarrow> string \<Rightarrow> node \<Rightarrow>
   struct_record list \<times> func_record list \<times> test_record list" where
  "top_level_records dec lang_map target is_test rel_path_str content_bytes node =
     (let current_parent_fqn = find_component_id_for_lib lang_map rel_path_str target in
      if is_node_type (Some node) ''python'' ''class_def'' then
        (case extract_py_data_structure dec node rel_path_str content_bytes
                (Some current_parent_fqn) of
           None \<Rightarrow> ([], [], [])
         | Some struct_data \<Rightarrow> ([struct_data\<lparr>sr_language := ''python''\<rparr>], [], []))
      else if is_node_type (Some node) ''python'' ''func_def'' then
        (let name_node = find_child_by_field_name (Some node) ''name'';
             func_name_text = or_default (get_node_text dec name_node content_bytes) [];
             is_test_func_by_name = startswith func_name_text ''test_''
         in if is_test \<or> is_test_func_by_name
            then ([], [], extract_py_test_specifications dec node rel_path_str content_bytes)
            else (case extract_py_function_details dec node rel_path_str content_bytes
                         (Some current_parent_fqn) of
                    None \<Rightarrow> ([], [], [])
                  | Some func_data \<Rightarrow> ([], [func_data\<lparr>fr_language := ''python''\<rparr>], [])))
      else ([], [], []))"

text \<open>\<open>str(Path(component_id.replace(".", os.sep)))\<close> for the \<open>source_path\<close> key.\<close>

definition component_source_path :: "string \<Rightarrow> string" where
  "component_source_path cid =
     (let s = map (\<lambda>c. if c = CHR ''.'' then CHR ''/'' else c) cid;
          k = length (takeWhile (\<lambda>c. c = CHR ''/'') s);
          root = (if k = 0 then [] else if k = 2 then ''//'' else ''/'');
          parts = path_parts s
      in if root = [] \<and> parts = [] then ''.'' else root @ py_join ''/'' parts)"

text \<open>The component created for an identifier that is not yet a key.\<close>

definition new_component :: "string \<Rightarrow> component" where
  "new_component cid =
     \<lparr>component_id = cid,
      component_type = ''python_module'',
      source_path = component_source_path cid,
      summary = ''Code component: '' @ cid,
      data_structures = [],
      function_list = [],
      test_specifications = []\<rparr>"

text \<open>The three \<open>extend\<close> calls at the end of \<open>process_file\<close>.\<close>

definition extend_component ::
  "struct_record list \<times> func_record list \<times> test_record list \<Rightarrow> component \<Rightarrow> component" where
  "extend_component news c =
     c\<lparr>data_structures := data_structures c @ fst news,
       function_list := function_list c @ fst (snd news),
       test_specifications := test_specifications c @ snd (snd news)\<rparr>"

text \<open>
  The loop over the children of the root node: \<open>new_structs\<close>, \<open>new_funcs\<close> and
  \<open>new_tests\<close> after it.
\<close>

definition file_records ::
  "(string \<Rightarrow> string) \<Rightarrow> (string \<times> string) list \<Rightarrow> string \<Rightarrow> bool \<Rightarrow> string \<Rightarrow> string \<Rightarrow> node \<Rightarrow>
   struct_record list \<times> func_record list \<times> test_record list" where
  "file_records dec lang_map target is_test rel_path_str content_bytes root_node =
     (let recs = map (top_level_records dec lang_map target is_test rel_path_str content_bytes)
                   (children root_node)
      in (concat (map fst recs),
          concat (map (\<lambda>r. fst (snd r)) recs),
          concat (map (\<lambda>r. snd (snd r)) recs)))"

text \<open>
  \<open>process_file\<close>.  Each early \<open>return\<close> and the handler of the \<open>try\<close> block leave
  the components as they are.  The component is created when its identifier is not yet a
  key; the three lists of new records are appended to its lists after the loop.
\<close>

definition process_file ::
  "(string \<Rightarrow> string) \<Rightarrow> (string \<times> string) list \<Rightarrow> string \<Rightarrow> repo_ir \<Rightarrow> source_file \<Rightarrow> repo_ir" where
  "process_file dec lang_map target st f =
     (let parts = root_parts f @ rel_parts f;
          name = file_name parts
      in if list_ex (\<lambda>part. part \<in> set IGNORE_DIRS) (rel_parts f) \<or> name \<in> set IGNORE_FILES
         then st
         else
           (let rel_path_str = path_str (rel_parts f);
                extension = py_lower (path_suffix name);
                lang = map_of lang_map extension
            in if lang = Some ''python'' then
                 (let is_test = is_test_file parts;
                      st1 = st\<lparr>languages_present := insert ''python'' (languages_present st)\<rparr>
                  in case contents f of
                       Unreadable \<Rightarrow> st1
                     | NoTree \<Rightarrow> st1
                     | Parsed content_bytes root_node \<Rightarrow>
                         (let cid = find_component_id_for_lib lang_map rel_path_str target;
                              comps1 =
                                (if cid \<in> set (map fst (components st1)) then components st1
                                 else components st1 @ [(cid, new_component cid)]);
                              news = file_records dec lang_map target is_test rel_path_str
                                       content_bytes root_node
                          in st1\<lparr>components :=
                                   map (\<lambda>kc. if fst kc = cid
                                              then (fst kc, extend_component news (snd kc))
                                              else kc)
                                     comps1\<rparr>))
               else st))"

text \<open>
  The loop of \<open>main\<close> over the files of one target, in the order the directory walk
  yields them, and the final conversion \<open>list(repo_ir["components"].values())\<close>.
\<close>

definition process_files ::
  "(string \<Rightarrow> string) \<Rightarrow> (string \<times> string) list \<Rightarrow> string \<Rightarrow> repo_ir \<Rightarrow> source_file list \<Rightarrow> repo_ir" where
  "process_files dec lang_map target st files = foldl (process_file dec lang_map target) st files"

definition final_components :: "repo_ir \<Rightarrow> component list" where
  "final_components st = map snd (components st)"

definition initial_ir :: repo_ir where
  "initial_ir = \<lparr>languages_present = {}, components = []\<rparr>"

text \<open>
  The loop of \<open>main\<close> over the targets (each with its name and its files), starting from
  the empty dictionary, and the component list that is written out.
\<close>

definition run_targets ::
  "(string \<Rightarrow> string) \<Rightarrow> (string \<times> string) list \<Rightarrow> repo_ir \<Rightarrow> (string \<times> source_file list) list \<Rightarrow> repo_ir" where
  "run_targets dec lang_map st targets =
     foldl (\<lambda>s tf. process_files dec lang_map (fst tf) s (snd tf)) st targets"

definition main_components ::
  "(string \<Rightarrow> string) \<Rightarrow> (string \<times> string) list \<Rightarrow> (string \<times> source_file list) list \<Rightarrow> component list" where
  "main_components dec lang_map targets =
     final_components (run_targets dec lang_map initial_ir targets)"

text \<open>
  For stating properties: the component identifier under which a file is aggregated, for
  a file that is not ignored, is mapped to Python, and was read and parsed.
\<close>

definition component_id_of_file ::
  "(string \<times> string) list \<Rightarrow> string \<Rightarrow> source_file \<Rightarrow> string option" where
  "component_id_of_file lang_map target f =
     (if list_ex (\<lambda>part. part \<in> set IGNORE_DIRS) (rel_parts f)
         \<or> file_name (root_parts f @ rel_parts f) \<in> set IGNORE_FILES
      then None
      else if map_of lang_map (py_lower (path_suffix (file_name (root_parts f @ rel_parts f))))
              = Some ''python''
      then (case contents f of
              Parsed content_bytes root_node \<Rightarrow>
                Some (find_component_id_for_lib lang_map (path_str (rel_parts f)) target)
            | _ \<Rightarrow> None)
      else None)"

text \<open>The identifiers of a run, in processing order, with repetitions.\<close>

definition run_component_ids ::
  "(string \<times> string) list \<Rightarrow> (string \<times> source_file list) list \<Rightarrow> string list" where
  "run_component_ids lang_map targets =
     concat (map (\<lambda>tf. List.map_filter (component_id_of_file lang_map (fst tf)) (snd tf)) targets)"

text \<open>Each element once, at the place of its first occurrence.\<close>

definition first_occurrences :: "'a list \<Rightarrow> 'a list" where
  "first_occurrences xs = rev (remdups (rev xs))"

text \<open>
  For stating properties: a component \<open>c'\<close> is a later state of \<open>c\<close> when it has the
  same identifier and each of its three lists starts with the list of \<open>c\<close>.
\<close>

definition grows :: "component \<Rightarrow> component \<Rightarrow> bool" where
  "grows c c' =
     (component_id c' = component_id c \<and>
      prefix (data_structures c) (data_structures c') \<and>
      prefix (function_list c) (function_list c') \<and>
      prefix (test_specifications c) (test_specifications c'))"

subsection \<open>Small source files as trees\<close>

text \<open>
  The tree of \<open>def xyz(): pass\<close> (a name of three letters) that starts at byte \<open>off\<close>
  on row \<open>r\<close>, and a module with given children.
\<close>

definition simple_def :: "nat \<Rightarrow> nat \<Rightarrow> node" where
  "simple_def off r =
     Node ''function_definition'' True None off (off + 15) r r
       [tok ''def'' off (off + 3),
        fleaf ''name'' ''identifier'' (off + 4) (off + 7),
        Node ''parameters'' True (Some ''parameters'') (off + 7) (off + 9) r r
          [tok ''('' (off + 7) (off + 8), tok '')'' (off + 8) (off + 9)],
        tok '':'' (off + 9) (off + 10),
        Node ''block'' True (Some ''body'') (off + 11) (off + 15) r r
          [leaf ''pass_statement'' (off + 11) (off + 15)]]"

definition module_node :: "nat \<Rightarrow> nat \<Rightarrow> node list \<Rightarrow> node" where
  "module_node len rows cs = Node ''module'' True None 0 len 0 rows cs"

text \<open>Two files of one package directory, which share a component identifier.\<close>

definition file_foo_bar :: source_file where
  "file_foo_bar =
     \<lparr>root_parts = [''/'', ''repo''], rel_parts = [''a'', ''__init__.py''],
      contents = Parsed (''def foo(): pass'' @ [CHR 0x0A] @ ''def bar(): pass'' @ [CHR 0x0A])
                   (module_node 32 2 [simple_def 0 0, simple_def 16 1])\<rparr>"

definition file_baz :: source_file where
  "file_baz =
     \<lparr>root_parts = [''/'', ''repo''], rel_parts = [''a'', ''mod.py''],
      contents = Parsed (''def baz(): pass'' @ [CHR 0x0A]) (module_node 16 1 [simple_def 0 0])\<rparr>"

text \<open>
  A file with a class \<open>K\<close>, a function \<open>foo\<close> and a function \<open>test_x\<close>, at a given
  path below the analysis root.
\<close>

definition mixed_src :: string where
  "mixed_src =
     ''class K: pass'' @ [CHR 0x0A] @ ''def foo(): pass'' @ [CHR 0x0A] @
     ''def test_x(): pass'' @ [CHR 0x0A]"

definition mixed_tree :: node where
  "mixed_tree =
     module_node 49 3
       [Node ''class_definition'' True None 0 13 0 0
          [tok ''class'' 0 5, fleaf ''name'' ''identifier'' 6 7, tok '':'' 7 8,
           Node ''block'' True (Some ''body'') 9 13 0 0 [leaf ''pass_statement'' 9 13]],
        simple_def 14 1,
        Node ''function_definition'' True None 30 48 2 2
          [tok ''def'' 30 33, fleaf ''name'' ''identifier'' 34 40,
           Node ''parameters'' True (Some ''parameters'') 40 42 2 2
             [tok ''('' 40 41, tok '')'' 41 42],
           tok '':'' 42 43,
           Node ''block'' True (Some ''body'') 44 48 2 2 [leaf ''pass_statement'' 44 48]]]"

definition mixed_file :: "string list \<Rightarrow> source_file" where
  "mixed_file rel =
     \<lparr>root_parts = [''/'', ''repo''], rel_parts = rel,
      contents = Parsed mixed_src mixed_tree\<rparr>"

text \<open>An empty Python file at the analysis root.\<close>

definition empty_file :: "string \<Rightarrow> source_file" where
  "empty_file name =
     \<lparr>root_parts = [''/'', ''repo''], rel_parts = [name],
      contents = Parsed [] (module_node 0 0 [])\<rparr>"

text \<open>A file that holds only the assignment \<open>X = 1\<close>.\<close>

definition constant_src :: string where
  "constant_src = ''X = 1'' @ [CHR 0x0A]"

definition constant_file :: "string list \<Rightarrow> source_file" where
  "constant_file rel =
     \<lparr>root_parts = [''/'', ''repo''], rel_parts = rel,
      contents = Parsed constant_src
        (module_node 6 1
           [Node ''expression_statement'' True None 0 5 0 0
              [Node ''assignment'' True None 0 5 0 0
                 [fleaf ''left'' ''identifier'' 0 1, tok ''='' 2 3,
                  fleaf ''right'' ''integer'' 4 5]]])\<rparr>"

text \<open>
  A file with a class \<open>Outer\<close> that holds a method \<open>Foo\<close>, under the file name
  \<open>name\<close> below the directories \<open>dirs\<close> of the analysis root.
\<close>

definition outer_foo_src :: string where
  "outer_foo_src =
     ''class Outer:'' @ [CHR 0x0A] @ ''    def Foo(self): pass'' @ [CHR 0x0A]"

definition outer_foo_tree :: node where
  "outer_foo_tree =
     module_node 37 2
       [Node ''class_definition'' True None 0 36 0 1
          [tok ''class'' 0 5, fleaf ''name'' ''identifier'' 6 11, tok '':'' 11 12,
           Node ''block'' True (Some ''body'') 17 36 1 1
             [Node ''function_definition'' True None 17 36 1 1
                [tok ''def'' 17 20, fleaf ''name'' ''identifier'' 21 24,
                 Node ''parameters'' True (Some ''parameters'') 24 30 1 1
                   [tok ''('' 24 25, leaf ''identifier'' 25 29, tok '')'' 29 30],
                 tok '':'' 30 31,
                 Node ''block'' True (Some ''body'') 32 36 1 1
                   [leaf ''pass_statement'' 32 36]]]]]"

definition outer_foo_file :: "string list \<Rightarrow> string \<Rightarrow> source_file" where
  "outer_foo_file dirs name =
     \<lparr>root_parts = [''/'', ''work''], rel_parts = dirs @ [name],
      contents = Parsed outer_foo_src outer_foo_tree\<rparr>"

text \<open>
  The file \<open>@dec\<close>, \<open>def foo(): pass\<close>: the grammar wraps a decorated function in a
  \<open>decorated_definition\<close> node, which holds the decorator and, under the field
  \<open>definition\<close>, the function definition.
\<close>

definition decorated_def :: node where
  "decorated_def =
     Node ''decorated_definition'' True None 0 20 0 1
       [Node ''decorator'' True None 0 4 0 0 [tok ''@'' 0 1, leaf ''identifier'' 1 4],
        Node ''function_definition'' True (Some ''definition'') 5 20 1 1
          [tok ''def'' 5 8, fleaf ''name'' ''identifier'' 9 12,
           Node ''parameters'' True (Some ''parameters'') 12 14 1 1
             [tok ''('' 12 13, tok '')'' 13 14],
           tok '':'' 14 15,
           Node ''block'' True (Some ''body'') 16 20 1 1 [leaf ''pass_statement'' 16 20]]]"

definition decorated_src :: string where
  "decorated_src = ''@dec'' @ [CHR 0x0A] @ ''def foo(): pass'' @ [CHR 0x0A]"

definition decorated_file :: "string \<Rightarrow> source_file" where
  "decorated_file name =
     \<lparr>root_parts = [''/'', ''repo''], rel_parts = [name],
      contents = Parsed decorated_src (module_node 21 2 [decorated_def])\<rparr>"

section \<open>The parser pool and compiled queries (src/ast\_utils.py)\<close>

text \<open>
  One entry of \<open>LANG_CONFIG\<close>: the grammar object under \<open>"language"\<close> (possibly absent)
  and the query templates under \<open>"queries"\<close> (name and source, in insertion order; an
  absent key reads as no queries).
\<close>

record 'g lang_config =
  language :: "'g option"
  queries :: "(string \<times> string) list"

datatype diag =
  LanguageMissing string
  | QueryCompileFailed string string
  | ParserInitFailed string

text \<open>
  The two module-level dictionaries \<open>parsers\<close> and \<open>_queries_compiled\<close>, and the lines
  printed so far.  A parser is represented by the grammar it was given.
\<close>

record ('g, 'q) pool =
  parsers :: "string \<rightharpoonup> 'g"
  queries_compiled :: "string \<rightharpoonup> (string \<rightharpoonup> 'q)"
  diagnostics :: "diag list"

text \<open>
  One round of the loop over the query templates.  \<open>compile g src\<close> stands for
  \<open>language.query(src)\<close>: \<open>None\<close> when it raises.  The exception is caught inside the
  loop, a warning is printed, and the loop goes on.
\<close>

definition compile_one ::
  "('g \<Rightarrow> string \<Rightarrow> 'q option) \<Rightarrow> 'g \<Rightarrow> string \<Rightarrow> ('g, 'q) pool \<Rightarrow> string \<times> string \<Rightarrow> ('g, 'q) pool" where
  "compile_one compile g lang_name p qd =
     (case compile g (snd qd) of
        Some q \<Rightarrow>
          p\<lparr>queries_compiled :=
              (queries_compiled p)(lang_name \<mapsto>
                 (case queries_compiled p lang_name of
                    None \<Rightarrow> Map.empty
                  | Some m \<Rightarrow> m)(fst qd \<mapsto> q))\<rparr>
      | None \<Rightarrow>
          p\<lparr>diagnostics := diagnostics p @ [QueryCompileFailed (fst qd) lang_name]\<rparr>)"

text \<open>
  \<open>_initialize_parser\<close>: the new pool and the returned parser.  \<open>set_language g\<close> is
  \<open>False\<close> when creating the parser or setting its language raises; the outer handler
  then prints an error and returns \<open>None\<close>.
\<close>

definition initialize_parser ::
  "('g \<Rightarrow> bool) \<Rightarrow> ('g \<Rightarrow> string \<Rightarrow> 'q option) \<Rightarrow> (string \<rightharpoonup> 'g lang_config) \<Rightarrow> string \<Rightarrow>
   ('g, 'q) pool \<Rightarrow> ('g, 'q) pool \<times> 'g option" where
  "initialize_parser set_language compile lang_configs lang_name p =
     (case parsers p lang_name of
        Some parser \<Rightarrow> (p, Some parser)
      | None \<Rightarrow>
          (case lang_configs lang_name of
             None \<Rightarrow> (p\<lparr>diagnostics := diagnostics p @ [LanguageMissing lang_name]\<rparr>, None)
           | Some cfg \<Rightarrow>
               (case language cfg of
                  None \<Rightarrow>
                    (p\<lparr>diagnostics := diagnostics p @ [LanguageMissing lang_name]\<rparr>, None)
                | Some g \<Rightarrow>
                    if set_language g then
                      (let p1 = p\<lparr>parsers := (parsers p)(lang_name \<mapsto> g),
                                   queries_compiled :=
                                     (queries_compiled p)(lang_name \<mapsto> Map.empty)\<rparr>;
                           p2 = foldl (compile_one compile g lang_name) p1 (queries cfg)
                       in (p2, parsers p2 lang_name))
                    else
                      (p\<lparr>diagnostics := diagnostics p @ [ParserInitFailed lang_name]\<rparr>,
                       None))))"

text \<open>
  \<open>run_query\<close>.  \<open>captures q n\<close> stands for \<open>query.captures(node)\<close>: \<open>None\<close> when it
  raises, which the source catches (printing a line) before it returns the empty list.
\<close>

definition run_query ::
  "('q \<Rightarrow> node \<Rightarrow> (node \<times> string) list option) \<Rightarrow> ('g, 'q) pool \<Rightarrow> string \<Rightarrow> string \<Rightarrow>
   node option \<Rightarrow> (node \<times> string) list" where
  "run_query captures p query_key lang node =
     (let lang_queries = (case queries_compiled p lang of None \<Rightarrow> Map.empty | Some m \<Rightarrow> m)
      in case lang_queries query_key of
           None \<Rightarrow> []
         | Some query \<Rightarrow>
             (case node of
                None \<Rightarrow> []
              | Some n \<Rightarrow> (case captures query n of Some r \<Rightarrow> r | None \<Rightarrow> [])))"

text \<open>Further initialisations, one language after another (as \<open>initialize_parsers\<close> and
  \<open>parse_code\<close> make them).\<close>

definition initialize_all ::
  "('g \<Rightarrow> bool) \<Rightarrow> ('g \<Rightarrow> string \<Rightarrow> 'q option) \<Rightarrow> (string \<rightharpoonup> 'g lang_config) \<Rightarrow>
   ('g, 'q) pool \<Rightarrow> string list \<Rightarrow> ('g, 'q) pool" where
  "initialize_all set_language compile lang_configs p langs =
     foldl (\<lambda>q l. fst (initialize_parser set_language compile lang_configs l q)) p langs"

subsection \<open>A configuration with one query that does not compile\<close>

definition demo_configs :: "string \<rightharpoonup> string lang_config" where
  "demo_configs =
     [''python'' \<mapsto> \<lparr>language = Some ''python-grammar'',
                      queries = [(''functions'', ''(function_definition) @f''),
                                 (''docstring'', ''(expression_statement (string) @d'')]\<rparr>]"

text \<open>A compiler that rejects a template with unbalanced parentheses.\<close>

definition demo_compile :: "string \<Rightarrow> string \<Rightarrow> string option" where
  "demo_compile g src =
     (if length (filter (\<lambda>c. c = CHR ''('') src) = length (filter (\<lambda>c. c = CHR '')'') src)
      then Some src else None)"

definition demo_captures :: "string \<Rightarrow> node \<Rightarrow> (node \<times> string) list option" where
  "demo_captures q n = Some [(n, q)]"

definition empty_pool :: "(string, string) pool" where
  "empty_pool = \<lparr>parsers = Map.empty, queries_compiled = Map.empty, diagnostics = []\<rparr>"

section \<open>Properties\<close>

lemma byte_slice_nth:
  "e \<le> length bs \<Longrightarrow> byte_slice s e bs = map ((!) bs) [s..<e]"
  unfolding byte_slice_def
  by (rule nth_equalityI) auto

text \<open>
  Claim C8.  On every node handle and every buffer \<open>get_node_text\<close> returns a string:
  the decoded bytes at the positions \<open>start, \<dots>, end - 1\<close> of the buffer when
  \<open>start < end \<le> length\<close>, and the empty string for an empty or out-of-range extent.
  No input makes it fail.
\<close>

theorem get_node_text_total:
  "get_node_text dec (Some n) bs =
     Some (if start_byte n < end_byte n \<and> end_byte n \<le> length bs
           then dec (map ((!) bs) [start_byte n..<end_byte n])
           else [])"
  by (simp add: get_node_text_def node_text_def byte_slice_nth)

subsection \<open>The FQN builder\<close>

lemma split_on_not_Nil: "split_on c s \<noteq> []"
  by (induction s) (auto split: list.splits)

text \<open>
  Claim C9, as stated, at the package initialiser of a library root: the module base path
  of \<open>__init__.py\<close> is empty, every parent name starts with it, the parent \<open>pkg\<close> ends
  with the item name \<open>g\<close>, and the builder still appends the name.
\<close>

theorem build_python_fqn_absorb_counterexample:
  "startswith ''pkg'' (base_module_path ''__init__.py'') \<and> endswith ''pkg'' ''g'' \<and>
   build_python_fqn ''__init__.py'' ''g'' (Some ''pkg'') = ''pkg.g'' \<and>
   build_python_fqn ''__init__.py'' ''g'' (Some ''pkg'') \<noteq> ''pkg''"
  by (simp add: build_python_fqn_def base_module_path_def replace_sep_def startswith_def
      endswith_def suffix_def)

text \<open>
  Claim C9, amended.  When the module base path derived from the file path is not empty,
  the parent name starts with it and the parent name ends with the item name (as a string,
  not necessarily as a whole dotted segment), the built name is the parent name itself.
\<close>

theorem build_python_fqn_absorbs_suffix:
  assumes "base_module_path path \<noteq> []"
    and "startswith p (base_module_path path)"
    and "endswith p n"
  shows "build_python_fqn path n (Some p) = p"
proof -
  from assms(1,2) have "p \<noteq> []"
    by (auto simp: startswith_def)
  with assms show ?thesis
    by (simp add: build_python_fqn_def Let_def)
qed

theorem build_python_fqn_absorbs_suffix_witness:
  "base_module_path ''pkg/mod.py'' \<noteq> [] \<and>
   startswith ''pkg.mod.Outer'' (base_module_path ''pkg/mod.py'') \<and>
   endswith ''pkg.mod.Outer'' ''ter'' \<and>
   build_python_fqn ''pkg/mod.py'' ''ter'' (Some ''pkg.mod.Outer'') = ''pkg.mod.Outer''"
proof -
  have b: "base_module_path ''pkg/mod.py'' = ''pkg.mod''"
    by (simp add: base_module_path_def replace_sep_def)
  have h1: "base_module_path ''pkg/mod.py'' \<noteq> []"
    by (simp add: b)
  have h2: "startswith ''pkg.mod.Outer'' (base_module_path ''pkg/mod.py'')"
    by (simp add: b startswith_def)
  have h3: "endswith ''pkg.mod.Outer'' ''ter''"
    by (simp add: endswith_def suffix_def)
  from build_python_fqn_absorbs_suffix [OF h1 h2 h3] h1 h2 h3 show ?thesis
    by simp
qed

subsection \<open>Signature extraction\<close>

lemmas tree_defs = tok_def leaf_def fleaf_def named_children_def child_by_field_name_def
  find_child_by_field_name_def get_node_text_def node_text_def byte_slice_def decode_ascii_def
  or_default_def

text \<open>
  Where the node for \<open>b: T = 5\<close> has the type \<open>default_parameter\<close> and carries the three
  fields the source's branch reads, the extractor returns four entries in source order, and
  the entry of \<open>b\<close> holds the annotation and the default as written.
\<close>

lemma extract_py_signature_default_parameter_shape:
  "params (extract_py_signature decode_ascii (sig_func ''default_parameter'') sig_src) =
     [\<lparr>p_name = ''a'', p_type = ''unknown'', p_default_value = None\<rparr>,
      \<lparr>p_name = ''b'', p_type = ''T'', p_default_value = Some ''5''\<rparr>,
      \<lparr>p_name = ''*args'', p_type = ''tuple'', p_default_value = None\<rparr>,
      \<lparr>p_name = ''**kwargs'', p_type = ''dict'', p_default_value = None\<rparr>]"
  by (simp add: extract_py_signature_def py_param_info_def sig_func_def sig_param_b_def
      sig_src_def tree_defs)

text \<open>
  Claim C1.  On the tree of the grammar, where the node for \<open>b: T = 5\<close> is a
  \<open>typed_default_parameter\<close>, no branch of the extractor matches it: its entry keeps the
  name \<open>_unknown_\<close> and is left out.  The extractor returns three entries, none of them
  for \<open>b\<close>, and no entry carries a default value.
\<close>

theorem extract_py_signature_drops_typed_default:
  "params (extract_py_signature decode_ascii (sig_func ''typed_default_parameter'') sig_src) =
     [\<lparr>p_name = ''a'', p_type = ''unknown'', p_default_value = None\<rparr>,
      \<lparr>p_name = ''*args'', p_type = ''tuple'', p_default_value = None\<rparr>,
      \<lparr>p_name = ''**kwargs'', p_type = ''dict'', p_default_value = None\<rparr>]"
  by (simp add: extract_py_signature_def py_param_info_def sig_func_def sig_param_b_def
      sig_src_def tree_defs)

subsection \<open>Python docstrings\<close>

text \<open>
  Where the two quote tokens of the string node have their own text as node type, as the
  comment in the source describes the tree, the extractor returns the two lines, dedented
  and trimmed, with no quote character left.
\<close>

lemma get_docstring_from_python_node_quote_typed:
  "get_docstring_from_python_node decode_ascii
     (Some (doc_body [CHR 0x22, CHR 0x22, CHR 0x22] False [CHR 0x22, CHR 0x22, CHR 0x22])) doc_src =
   Some (''line one'' @ [CHR 0x0A] @ ''line two'')"
  by code_simp

text \<open>
  A body whose first named child is not an expression statement that starts with a string
  node has no docstring; so has a missing body, a node that is not a block, and a block
  with no named child.  The extractor has no failing branch: each index it reads is guarded.
\<close>

lemma get_docstring_from_python_node_absent:
  assumes "named_children b = first_statement # later"
    and "ntype first_statement \<noteq> ''expression_statement'' \<or>
         named_children first_statement = [] \<or>
         ntype (hd (named_children first_statement)) \<noteq> ''string''"
  shows "get_docstring_from_python_node dec (Some b) content_bytes = None"
  using assms
  by (auto simp: get_docstring_from_python_node_def is_node_type_def node_types_of_def
      python_node_types_def split: list.splits)

lemma get_docstring_from_python_node_no_statement:
  "get_docstring_from_python_node dec None content_bytes = None"
  "named_children b = [] \<Longrightarrow> get_docstring_from_python_node dec (Some b) content_bytes = None"
  "ntype b \<noteq> ''block'' \<Longrightarrow> get_docstring_from_python_node dec (Some b) content_bytes = None"
  by (auto simp: get_docstring_from_python_node_def is_node_type_def node_types_of_def
      python_node_types_def)

text \<open>
  Claim C4.  On the tree of the grammar, where the quote tokens are the named nodes
  \<open>string_start\<close> and \<open>string_end\<close>, neither node type is in the list of skipped
  types: the text of both is taken into the docstring, the first line then has no indent,
  nothing is dedented, and the result is the whole literal with its quotes.
\<close>

theorem get_docstring_from_python_node_keeps_quotes:
  "get_docstring_from_python_node decode_ascii
     (Some (doc_body ''string_start'' True ''string_end'')) doc_src =
   Some ([CHR 0x22, CHR 0x22, CHR 0x22, CHR 0x0A] @
         ''    line one'' @ [CHR 0x0A] @
         ''    line two'' @ [CHR 0x0A] @
         ''    '' @ [CHR 0x22, CHR 0x22, CHR 0x22])"
  by code_simp

subsection \<open>Rust docstrings\<close>










subsection \<open>Query compilation\<close>

lemma compile_one_parsers [simp]:
  "parsers (compile_one compile g lang p qd) = parsers p"
  by (simp add: compile_one_def split: option.splits)

lemma compile_one_other:
  "l \<noteq> lang \<Longrightarrow> queries_compiled (compile_one compile g lang p qd) l = queries_compiled p l"
  by (simp add: compile_one_def split: option.splits)

lemma foldl_compile_one_parsers [simp]:
  "parsers (foldl (compile_one compile g lang) p qs) = parsers p"
  by (induction qs arbitrary: p) simp_all

lemma foldl_compile_one_other:
  "l \<noteq> lang \<Longrightarrow>
   queries_compiled (foldl (compile_one compile g lang) p qs) l = queries_compiled p l"
  by (induction qs arbitrary: p) (simp_all add: compile_one_other)

lemma foldl_compile_one_lang:
  assumes "queries_compiled p lang = Some m" and "distinct (map fst qs)"
  shows "queries_compiled (foldl (compile_one compile g lang) p qs) lang =
         Some (\<lambda>n. case map_of qs n of
                      None \<Rightarrow> m n
                    | Some src \<Rightarrow> (case compile g src of None \<Rightarrow> m n | Some q \<Rightarrow> Some q))"
  using assms
proof (induction qs arbitrary: p m)
  case Nil
  then show ?case by simp
next
  case (Cons qd qs)
  obtain n src where qd: "qd = (n, src)" by (cases qd)
  from Cons.prems(2) qd have notin: "map_of qs n = None" and dist: "distinct (map fst qs)"
    by (auto simp: map_of_eq_None_iff)
  show ?case
  proof (cases "compile g src")
    case None
    then have "queries_compiled (compile_one compile g lang p qd) lang = Some m"
      using Cons.prems(1) qd by (simp add: compile_one_def)
    from Cons.IH [OF this dist] None qd notin show ?thesis
      by (auto intro!: ext split: option.splits)
  next
    case (Some q)
    then have "queries_compiled (compile_one compile g lang p qd) lang = Some (m(n \<mapsto> q))"
      using Cons.prems(1) qd by (simp add: compile_one_def)
    from Cons.IH [OF this dist] Some qd notin show ?thesis
      by (auto intro!: ext split: option.splits)
  qed
qed

lemma initialize_parser_fresh:
  assumes "parsers p lang = None" and "lang_configs lang = Some cfg" and "language cfg = Some g"
    and "set_language g" and "distinct (map fst (queries cfg))"
  shows "snd (initialize_parser set_language compile lang_configs lang p) = Some g"
    and "parsers (fst (initialize_parser set_language compile lang_configs lang p)) lang = Some g"
    and "queries_compiled (fst (initialize_parser set_language compile lang_configs lang p)) lang =
         Some (\<lambda>n. case map_of (queries cfg) n of None \<Rightarrow> None | Some src \<Rightarrow> compile g src)"
proof -
  let ?p1 = "p\<lparr>parsers := (parsers p)(lang \<mapsto> g),
               queries_compiled := (queries_compiled p)(lang \<mapsto> Map.empty)\<rparr>"
  have q1: "queries_compiled ?p1 lang = Some Map.empty" by simp
  have eq: "queries_compiled (foldl (compile_one compile g lang) ?p1 (queries cfg)) lang =
     Some (\<lambda>n. case map_of (queries cfg) n of None \<Rightarrow> None | Some src \<Rightarrow> compile g src)"
    unfolding foldl_compile_one_lang [OF q1 assms(5)]
    by (auto intro!: ext split: option.splits)
  show "snd (initialize_parser set_language compile lang_configs lang p) = Some g"
    using assms by (simp add: initialize_parser_def Let_def)
  show "parsers (fst (initialize_parser set_language compile lang_configs lang p)) lang = Some g"
    using assms by (simp add: initialize_parser_def Let_def)
  show "queries_compiled (fst (initialize_parser set_language compile lang_configs lang p)) lang =
         Some (\<lambda>n. case map_of (queries cfg) n of None \<Rightarrow> None | Some src \<Rightarrow> compile g src)"
    using assms eq by (simp add: initialize_parser_def Let_def)
qed

lemma initialize_parser_keeps:
  assumes "parsers p lang = Some g"
  shows "parsers (fst (initialize_parser set_language compile lang_configs l p)) lang = Some g"
    and "queries_compiled (fst (initialize_parser set_language compile lang_configs l p)) lang =
         queries_compiled p lang"
proof -
  show "parsers (fst (initialize_parser set_language compile lang_configs l p)) lang = Some g"
    using assms
    by (cases "l = lang") (auto simp: initialize_parser_def Let_def split: option.splits)
  show "queries_compiled (fst (initialize_parser set_language compile lang_configs l p)) lang =
         queries_compiled p lang"
    using assms
    by (cases "l = lang")
       (auto simp: initialize_parser_def Let_def foldl_compile_one_other split: option.splits)
qed

lemma initialize_all_keeps:
  assumes "parsers p lang = Some g"
  shows "queries_compiled (initialize_all set_language compile lang_configs p langs) lang =
         queries_compiled p lang"
  using assms unfolding initialize_all_def
proof (induction langs arbitrary: p)
  case Nil
  then show ?case by simp
next
  case (Cons l langs)
  from Cons.IH [OF initialize_parser_keeps(1) [OF Cons.prems]]
    initialize_parser_keeps(2) [OF Cons.prems]
  show ?case by simp
qed

text \<open>
  Claim C7.  Let a language be initialised for the first time, with a grammar that loads
  and templates under distinct names, one of which fails to compile.  Then the
  initialisation returns the parser; in the compiled set of the language, after this and
  after any further initialisations, that name is absent while every template that
  compiled is present; and running that query returns the empty list, for every node and
  whatever the capture operation does.
\<close>

theorem failed_query_compilation_is_not_fatal:
  assumes fresh: "parsers p lang = None"
    and cfg: "lang_configs lang = Some cfg"
    and g: "language cfg = Some g"
    and ok: "set_language g"
    and dist: "distinct (map fst (queries cfg))"
    and q: "(qname, qsrc) \<in> set (queries cfg)"
    and fail: "compile g qsrc = None"
  shows "snd (initialize_parser set_language compile lang_configs lang p) = Some g \<and>
         (\<exists>m. queries_compiled
                (initialize_all set_language compile lang_configs
                   (fst (initialize_parser set_language compile lang_configs lang p)) later) lang
              = Some m \<and>
              m qname = None \<and>
              (\<forall>n s c. (n, s) \<in> set (queries cfg) \<and> compile g s = Some c \<longrightarrow> m n = Some c)) \<and>
         run_query captures
           (initialize_all set_language compile lang_configs
              (fst (initialize_parser set_language compile lang_configs lang p)) later)
           qname lang node = []"
proof -
  let ?p' = "fst (initialize_parser set_language compile lang_configs lang p)"
  let ?m = "\<lambda>n. case map_of (queries cfg) n of None \<Rightarrow> None | Some src \<Rightarrow> compile g src"
  have init1: "snd (initialize_parser set_language compile lang_configs lang p) = Some g"
    using fresh cfg g ok dist by (rule initialize_parser_fresh(1))
  have init2: "parsers ?p' lang = Some g"
    using fresh cfg g ok dist by (rule initialize_parser_fresh(2))
  have init3: "queries_compiled ?p' lang = Some ?m"
    using fresh cfg g ok dist by (rule initialize_parser_fresh(3))
  have later: "queries_compiled (initialize_all set_language compile lang_configs ?p' later) lang
               = Some ?m"
    using initialize_all_keeps [OF init2] init3 by simp
  have absent: "?m qname = None"
    using map_of_is_SomeI [OF dist q] fail by simp
  have present: "\<forall>n s c. (n, s) \<in> set (queries cfg) \<and> compile g s = Some c \<longrightarrow> ?m n = Some c"
    using dist by (auto dest: map_of_is_SomeI)
  have run: "run_query captures (initialize_all set_language compile lang_configs ?p' later)
               qname lang node = []"
    using later absent by (simp add: run_query_def)
  from init1 later absent present run show ?thesis by blast
qed


theorem failed_query_compilation_is_not_fatal_witness:
  "snd (initialize_parser (\<lambda>g. True) demo_compile demo_configs ''python'' empty_pool)
     = Some ''python-grammar'' \<and>
   run_query demo_captures
     (initialize_all (\<lambda>g. True) demo_compile demo_configs
        (fst (initialize_parser (\<lambda>g. True) demo_compile demo_configs ''python'' empty_pool))
        [''python'', ''rust''])
     ''docstring'' ''python'' (Some (leaf ''module'' 0 0)) = []"
proof -
  have fresh: "parsers empty_pool ''python'' = None"
    by (simp add: empty_pool_def)
  have cfg: "demo_configs ''python'' =
      Some \<lparr>language = Some ''python-grammar'',
            queries = [(''functions'', ''(function_definition) @f''),
                       (''docstring'', ''(expression_statement (string) @d'')]\<rparr>"
    by (simp add: demo_configs_def)
  have fail: "demo_compile ''python-grammar'' ''(expression_statement (string) @d'' = None"
    by (simp add: demo_compile_def)
  note inst = failed_query_compilation_is_not_fatal
    [where p = empty_pool and lang = "''python''" and lang_configs = demo_configs
       and cfg = "\<lparr>language = Some ''python-grammar'',
                   queries = [(''functions'', ''(function_definition) @f''),
                              (''docstring'', ''(expression_statement (string) @d'')]\<rparr>"
       and g = "''python-grammar''" and set_language = "\<lambda>g. True"
       and compile = demo_compile and qname = "''docstring''"
       and qsrc = "''(expression_statement (string) @d''" and captures = demo_captures
       and later = "[''python'', ''rust'']" and node = "Some (leaf ''module'' 0 0)"]
  from inst fresh cfg fail show ?thesis
    by simp
qed

subsection \<open>The aggregator\<close>

lemma first_occurrences_snoc:
  "first_occurrences (xs @ [x]) =
     (if x \<in> set xs then first_occurrences xs else first_occurrences xs @ [x])"
  by (simp add: first_occurrences_def)

lemma set_first_occurrences: "set (first_occurrences xs) = set xs"
  by (simp add: first_occurrences_def)

lemma process_file_skipped:
  assumes "component_id_of_file lang_map target f = None"
  shows "components (process_file dec lang_map target st f) = components st"
proof (cases "contents f")
  case Unreadable
  then show ?thesis by (simp add: process_file_def Let_def)
next
  case NoTree
  then show ?thesis by (simp add: process_file_def Let_def)
next
  case (Parsed content_bytes root_node)
  with assms have
    "(list_ex (\<lambda>part. part \<in> set IGNORE_DIRS) (rel_parts f)
        \<or> file_name (root_parts f @ rel_parts f) \<in> set IGNORE_FILES) \<or>
     map_of lang_map (py_lower (path_suffix (file_name (root_parts f @ rel_parts f))))
       \<noteq> Some ''python''"
    by (auto simp: component_id_of_file_def split: if_splits)
  then show ?thesis
    by (auto simp: process_file_def Let_def)
qed

lemma process_file_aggregated:
  assumes "component_id_of_file lang_map target f = Some cid"
  shows "\<exists>content_bytes root_node.
           contents f = Parsed content_bytes root_node \<and>
           cid = find_component_id_for_lib lang_map (path_str (rel_parts f)) target \<and>
           components (process_file dec lang_map target st f) =
             map (\<lambda>kc. if fst kc = cid
                        then (fst kc,
                              extend_component
                                (file_records dec lang_map target
                                   (is_test_file (root_parts f @ rel_parts f))
                                   (path_str (rel_parts f)) content_bytes root_node)
                                (snd kc))
                        else kc)
               (if cid \<in> set (map fst (components st)) then components st
                else components st @ [(cid, new_component cid)])"
proof -
  from assms have ok:
    "\<not> (list_ex (\<lambda>part. part \<in> set IGNORE_DIRS) (rel_parts f)
        \<or> file_name (root_parts f @ rel_parts f) \<in> set IGNORE_FILES)"
    "map_of lang_map (py_lower (path_suffix (file_name (root_parts f @ rel_parts f))))
       = Some ''python''"
    by (auto simp: component_id_of_file_def split: if_splits)
  from assms ok obtain content_bytes root_node where
    c: "contents f = Parsed content_bytes root_node"
    and cid: "cid = find_component_id_for_lib lang_map (path_str (rel_parts f)) target"
    by (cases "contents f") (auto simp: component_id_of_file_def)
  from ok c cid show ?thesis
    by (simp add: process_file_def Let_def)
qed


lemma process_file_keys:
  "map fst (components (process_file dec lang_map target st f)) =
     (case component_id_of_file lang_map target f of
        None \<Rightarrow> map fst (components st)
      | Some cid \<Rightarrow> if cid \<in> set (map fst (components st)) then map fst (components st)
                    else map fst (components st) @ [cid])"
proof (cases "component_id_of_file lang_map target f")
  case None
  then show ?thesis by (simp add: process_file_skipped)
next
  case (Some cid)
  have fst_upd: "map fst (map (\<lambda>kc. if fst kc = cid then (fst kc, g (snd kc)) else kc) xs)
                 = map fst xs" for g :: "component \<Rightarrow> component" and xs
    by (induction xs) auto
  from process_file_aggregated [OF Some, of dec st] obtain content_bytes root_node where
    "components (process_file dec lang_map target st f) =
       map (\<lambda>kc. if fst kc = cid
                  then (fst kc,
                        extend_component
                          (file_records dec lang_map target
                             (is_test_file (root_parts f @ rel_parts f))
                             (path_str (rel_parts f)) content_bytes root_node)
                          (snd kc))
                  else kc)
         (if cid \<in> set (map fst (components st)) then components st
          else components st @ [(cid, new_component cid)])"
    by blast
  then have "map fst (components (process_file dec lang_map target st f)) =
             map fst (if cid \<in> set (map fst (components st)) then components st
                      else components st @ [(cid, new_component cid)])"
    by (simp only: fst_upd)
  with Some show ?thesis
    by simp
qed

lemma process_file_ids:
  assumes "list_all (\<lambda>kc. component_id (snd kc) = fst kc) (components st)"
  shows "list_all (\<lambda>kc. component_id (snd kc) = fst kc)
           (components (process_file dec lang_map target st f))"
proof (cases "component_id_of_file lang_map target f")
  case None
  with assms show ?thesis by (simp add: process_file_skipped)
next
  case (Some cid)
  have upd: "list_all (\<lambda>kc. component_id (snd kc) = fst kc)
               (map (\<lambda>kc. if fst kc = cid then (fst kc, extend_component news (snd kc)) else kc) xs)"
    if "list_all (\<lambda>kc. component_id (snd kc) = fst kc) xs" for news xs
    using that by (induction xs) (auto simp: extend_component_def)
  have new: "list_all (\<lambda>kc. component_id (snd kc) = fst kc)
               (if cid \<in> set (map fst (components st)) then components st
                else components st @ [(cid, new_component cid)])"
    using assms by (simp add: new_component_def)
  from process_file_aggregated [OF Some, of dec st] obtain content_bytes root_node where
    "components (process_file dec lang_map target st f) =
       map (\<lambda>kc. if fst kc = cid
                  then (fst kc,
                        extend_component
                          (file_records dec lang_map target
                             (is_test_file (root_parts f @ rel_parts f))
                             (path_str (rel_parts f)) content_bytes root_node)
                          (snd kc))
                  else kc)
         (if cid \<in> set (map fst (components st)) then components st
          else components st @ [(cid, new_component cid)])"
    by blast
  then show ?thesis
    using upd [OF new] by simp
qed

lemma process_files_snoc:
  "process_files dec lang_map target st (fs @ [f]) =
   process_file dec lang_map target (process_files dec lang_map target st fs) f"
  by (simp add: process_files_def)

lemma process_files_keys:
  assumes "map fst (components st) = first_occurrences A"
  shows "map fst (components (process_files dec lang_map target st fs)) =
         first_occurrences (A @ List.map_filter (component_id_of_file lang_map target) fs)"
proof (induction fs rule: rev_induct)
  case Nil
  then show ?case using assms by (simp add: process_files_def List.map_filter_def)
next
  case (snoc f fs)
  show ?case
  proof (cases "component_id_of_file lang_map target f")
    case None
    then show ?thesis
      using snoc.IH
      by (simp add: process_files_snoc process_file_keys List.map_filter_def)
  next
    case (Some cid)
    have "first_occurrences (A @ List.map_filter (component_id_of_file lang_map target) (fs @ [f]))
          = first_occurrences ((A @ List.map_filter (component_id_of_file lang_map target) fs) @ [cid])"
      using Some by (simp add: List.map_filter_def)
    also have "\<dots> = (if cid \<in> set (A @ List.map_filter (component_id_of_file lang_map target) fs)
                      then first_occurrences (A @ List.map_filter (component_id_of_file lang_map target) fs)
                      else first_occurrences (A @ List.map_filter (component_id_of_file lang_map target) fs) @ [cid])"
      by (rule first_occurrences_snoc)
    finally show ?thesis
      using snoc.IH Some
        set_first_occurrences [of "A @ List.map_filter (component_id_of_file lang_map target) fs"]
      by (simp add: process_files_snoc process_file_keys del: set_append)
  qed
qed

lemma process_files_ids:
  assumes "list_all (\<lambda>kc. component_id (snd kc) = fst kc) (components st)"
  shows "list_all (\<lambda>kc. component_id (snd kc) = fst kc)
           (components (process_files dec lang_map target st fs))"
  using assms
  by (induction fs rule: rev_induct) (simp_all add: process_files_def process_file_ids)

lemma run_targets_keys:
  assumes "map fst (components st) = first_occurrences A"
  shows "map fst (components (run_targets dec lang_map st targets)) =
         first_occurrences (A @ run_component_ids lang_map targets)"
proof (induction targets rule: rev_induct)
  case Nil
  then show ?case using assms by (simp add: run_targets_def run_component_ids_def)
next
  case (snoc tf targets)
  from process_files_keys [OF snoc.IH, of dec lang_map "fst tf" "snd tf"]
  show ?case
    by (simp add: run_targets_def run_component_ids_def)
qed

lemma run_targets_ids:
  assumes "list_all (\<lambda>kc. component_id (snd kc) = fst kc) (components st)"
  shows "list_all (\<lambda>kc. component_id (snd kc) = fst kc)
           (components (run_targets dec lang_map st targets))"
  using assms
  by (induction targets rule: rev_induct) (simp_all add: run_targets_def process_files_ids)

text \<open>
  Claim C2, amended.  The component list written out by \<open>main\<close> holds the identifier of
  every aggregated file once, at the place of its first occurrence in processing order
  (over all targets and their files): the order of creation, which no step sorts.
\<close>

theorem main_components_in_first_seen_order:
  "map component_id (main_components dec lang_map targets) =
   first_occurrences (run_component_ids lang_map targets)"
proof -
  have k: "map fst (components initial_ir) = first_occurrences []"
    by (simp add: initial_ir_def first_occurrences_def)
  have i: "list_all (\<lambda>kc. component_id (snd kc) = fst kc) (components initial_ir)"
    by (simp add: initial_ir_def)
  have "map (\<lambda>kc. component_id (snd kc)) (components (run_targets dec lang_map initial_ir targets))
        = map fst (components (run_targets dec lang_map initial_ir targets))"
    using run_targets_ids [OF i, of dec lang_map targets]
    by (simp add: list_all_iff)
  then show ?thesis
    using run_targets_keys [OF k, of dec lang_map targets]
    by (simp add: main_components_def final_components_def comp_def)
qed

text \<open>
  Claim C2, as stated, on two empty files processed in the order \<open>b.py\<close>, \<open>a.py\<close>:
  the identifiers come out as \<open>pkg.b\<close>, \<open>pkg.a\<close>, which is not sorted.
\<close>

theorem main_components_not_sorted:
  "\<not> sorted (map component_id
       (main_components decode_ascii LANG_MAP
          [(''pkg'', [empty_file ''b.py'', empty_file ''a.py''])]))"
  by code_simp

lemma grows_refl: "grows c c"
  by (simp add: grows_def)

lemma grows_trans: "grows a b \<Longrightarrow> grows b c \<Longrightarrow> grows a c"
  by (auto simp: grows_def intro: prefix_order.trans)

lemma grows_extend: "grows c (extend_component news c)"
  by (simp add: grows_def extend_component_def)

lemma process_file_nth:
  assumes i: "i < length (components st)"
  shows "i < length (components (process_file dec lang_map target st f)) \<and>
         fst (components (process_file dec lang_map target st f) ! i) = fst (components st ! i) \<and>
         grows (snd (components st ! i)) (snd (components (process_file dec lang_map target st f) ! i))"
proof (cases "component_id_of_file lang_map target f")
  case None
  with i show ?thesis by (simp add: process_file_skipped grows_refl)
next
  case (Some cid)
  let ?base = "if cid \<in> set (map fst (components st)) then components st
               else components st @ [(cid, new_component cid)]"
  from process_file_aggregated [OF Some, of dec st] obtain content_bytes root_node where
    eq: "components (process_file dec lang_map target st f) =
       map (\<lambda>kc. if fst kc = cid
                  then (fst kc,
                        extend_component
                          (file_records dec lang_map target
                             (is_test_file (root_parts f @ rel_parts f))
                             (path_str (rel_parts f)) content_bytes root_node)
                          (snd kc))
                  else kc) ?base"
    by blast
  have len: "i < length ?base" using i by simp
  have nth: "?base ! i = components st ! i" using i by (simp add: nth_append)
  show ?thesis
    unfolding eq using len nth by (simp add: grows_refl grows_extend)
qed

lemma process_files_nth:
  assumes i: "i < length (components st)"
  shows "i < length (components (process_files dec lang_map target st files)) \<and>
         fst (components (process_files dec lang_map target st files) ! i) = fst (components st ! i) \<and>
         grows (snd (components st ! i)) (snd (components (process_files dec lang_map target st files) ! i))"
proof (induction files rule: rev_induct)
  case Nil
  with i show ?case by (simp add: process_files_def grows_refl)
next
  case (snoc f files)
  let ?mid = "process_files dec lang_map target st files"
  from snoc have m: "i < length (components ?mid)" by simp
  from process_file_nth [OF m, of dec lang_map target f] snoc show ?case
    by (auto simp: process_files_snoc intro: grows_trans)
qed

lemma process_file_creates:
  assumes cid: "component_id_of_file lang_map target f = Some cid"
    and new: "cid \<notin> set (map fst (components st))"
  shows "\<exists>content_bytes root_node.
           contents f = Parsed content_bytes root_node \<and>
           components (process_file dec lang_map target st f) =
             components st @
             [(cid, extend_component
                      (file_records dec lang_map target (is_test_file (root_parts f @ rel_parts f))
                         (path_str (rel_parts f)) content_bytes root_node)
                      (new_component cid))]"
proof -
  have keep: "map (\<lambda>kc. if fst kc = cid then (fst kc, g (snd kc)) else kc) xs = xs"
    if "cid \<notin> set (map fst xs)" for g :: "component \<Rightarrow> component" and xs
    using that by (induction xs) auto
  from process_file_aggregated [OF cid, of dec st] new obtain content_bytes root_node where
    c: "contents f = Parsed content_bytes root_node" and
    eq: "components (process_file dec lang_map target st f) =
       map (\<lambda>kc. if fst kc = cid
                  then (fst kc,
                        extend_component
                          (file_records dec lang_map target
                             (is_test_file (root_parts f @ rel_parts f))
                             (path_str (rel_parts f)) content_bytes root_node)
                          (snd kc))
                  else kc) (components st @ [(cid, new_component cid)])"
    by auto
  show ?thesis
    unfolding eq using c keep [OF new] by simp
qed

lemma process_file_existing:
  assumes cid: "component_id_of_file lang_map target f = Some cid"
    and mem: "cid \<in> set (map fst (components st))"
  shows "\<exists>content_bytes root_node.
           contents f = Parsed content_bytes root_node \<and>
           components (process_file dec lang_map target st f) =
             map (\<lambda>kc. if fst kc = cid
                        then (fst kc,
                              extend_component
                                (file_records dec lang_map target
                                   (is_test_file (root_parts f @ rel_parts f))
                                   (path_str (rel_parts f)) content_bytes root_node)
                                (snd kc))
                        else kc)
               (components st)"
  using process_file_aggregated [OF cid, of dec st] mem by auto


text \<open>
  Claim C6, amended.  Processing any further files never removes, moves or rewrites what a
  component holds: the component at a position keeps its position, its key and its
  identifier, and each of its three lists is extended at its end only.  A file that is
  ignored, not Python, unreadable or unparsed changes no component.  A file that is
  parsed is aggregated under its component identifier: when the identifier is not yet a
  key, one component is added after all existing ones, and its three lists are the
  records of the file's top-level nodes, in the order of the nodes; when the identifier
  is a key, the number and the keys of the components stay, every component under
  another key is unchanged, and each of the three lists of the component under this key
  is the list before followed by the file's records, in the order of the nodes.
\<close>

theorem aggregator_append_only:
  "(i < length (components st) \<longrightarrow>
      i < length (components (process_files dec lang_map target st files)) \<and>
      fst (components (process_files dec lang_map target st files) ! i)
        = fst (components st ! i) \<and>
      component_id (snd (components (process_files dec lang_map target st files) ! i))
        = component_id (snd (components st ! i)) \<and>
      prefix (data_structures (snd (components st ! i)))
        (data_structures (snd (components (process_files dec lang_map target st files) ! i))) \<and>
      prefix (function_list (snd (components st ! i)))
        (function_list (snd (components (process_files dec lang_map target st files) ! i))) \<and>
      prefix (test_specifications (snd (components st ! i)))
        (test_specifications
           (snd (components (process_files dec lang_map target st files) ! i)))) \<and>
   (component_id_of_file lang_map target f = None \<longrightarrow>
      components (process_file dec lang_map target st f) = components st) \<and>
   (component_id_of_file lang_map target f = Some cid \<longrightarrow>
      (\<exists>content_bytes root_node.
         contents f = Parsed content_bytes root_node \<and>
         (let recs = map (top_level_records dec lang_map target
                            (is_test_file (root_parts f @ rel_parts f))
                            (path_str (rel_parts f)) content_bytes)
                       (children root_node);
              before = components st;
              after = components (process_file dec lang_map target st f)
          in (cid \<notin> set (map fst before) \<longrightarrow>
                length after = length before + 1 \<and>
                take (length before) after = before \<and>
                fst (last after) = cid \<and>
                component_id (snd (last after)) = cid \<and>
                data_structures (snd (last after)) = concat (map fst recs) \<and>
                function_list (snd (last after)) = concat (map (\<lambda>r. fst (snd r)) recs) \<and>
                test_specifications (snd (last after))
                  = concat (map (\<lambda>r. snd (snd r)) recs)) \<and>
             (cid \<in> set (map fst before) \<longrightarrow>
                length after = length before \<and>
                (\<forall>j < length before.
                   fst (after ! j) = fst (before ! j) \<and>
                   (fst (before ! j) \<noteq> cid \<longrightarrow> after ! j = before ! j) \<and>
                   (fst (before ! j) = cid \<longrightarrow>
                      component_id (snd (after ! j)) = component_id (snd (before ! j)) \<and>
                      data_structures (snd (after ! j))
                        = data_structures (snd (before ! j)) @ concat (map fst recs) \<and>
                      function_list (snd (after ! j))
                        = function_list (snd (before ! j))
                          @ concat (map (\<lambda>r. fst (snd r)) recs) \<and>
                      test_specifications (snd (after ! j))
                        = test_specifications (snd (before ! j))
                          @ concat (map (\<lambda>r. snd (snd r)) recs)))))))"
proof -
  have A: "i < length (components (process_files dec lang_map target st files)) \<and>
      fst (components (process_files dec lang_map target st files) ! i)
        = fst (components st ! i) \<and>
      component_id (snd (components (process_files dec lang_map target st files) ! i))
        = component_id (snd (components st ! i)) \<and>
      prefix (data_structures (snd (components st ! i)))
        (data_structures (snd (components (process_files dec lang_map target st files) ! i))) \<and>
      prefix (function_list (snd (components st ! i)))
        (function_list (snd (components (process_files dec lang_map target st files) ! i))) \<and>
      prefix (test_specifications (snd (components st ! i)))
        (test_specifications
           (snd (components (process_files dec lang_map target st files) ! i)))"
    if "i < length (components st)"
    using process_files_nth [OF that, of dec lang_map target files]
    by (simp add: grows_def)
  have B: "components (process_file dec lang_map target st f) = components st"
    if "component_id_of_file lang_map target f = None"
    using that by (rule process_file_skipped)
  have C: "\<exists>content_bytes root_node.
         contents f = Parsed content_bytes root_node \<and>
         (let recs = map (top_level_records dec lang_map target
                            (is_test_file (root_parts f @ rel_parts f))
                            (path_str (rel_parts f)) content_bytes)
                       (children root_node);
              before = components st;
              after = components (process_file dec lang_map target st f)
          in (cid \<notin> set (map fst before) \<longrightarrow>
                length after = length before + 1 \<and>
                take (length before) after = before \<and>
                fst (last after) = cid \<and>
                component_id (snd (last after)) = cid \<and>
                data_structures (snd (last after)) = concat (map fst recs) \<and>
                function_list (snd (last after)) = concat (map (\<lambda>r. fst (snd r)) recs) \<and>
                test_specifications (snd (last after))
                  = concat (map (\<lambda>r. snd (snd r)) recs)) \<and>
             (cid \<in> set (map fst before) \<longrightarrow>
                length after = length before \<and>
                (\<forall>j < length before.
                   fst (after ! j) = fst (before ! j) \<and>
                   (fst (before ! j) \<noteq> cid \<longrightarrow> after ! j = before ! j) \<and>
                   (fst (before ! j) = cid \<longrightarrow>
                      component_id (snd (after ! j)) = component_id (snd (before ! j)) \<and>
                      data_structures (snd (after ! j))
                        = data_structures (snd (before ! j)) @ concat (map fst recs) \<and>
                      function_list (snd (after ! j))
                        = function_list (snd (before ! j))
                          @ concat (map (\<lambda>r. fst (snd r)) recs) \<and>
                      test_specifications (snd (after ! j))
                        = test_specifications (snd (before ! j))
                          @ concat (map (\<lambda>r. snd (snd r)) recs)))))"
    if cid: "component_id_of_file lang_map target f = Some cid"
  proof (cases "cid \<in> set (map fst (components st))")
    case True
    from process_file_existing [OF cid True, of dec] obtain content_bytes root_node where
      c: "contents f = Parsed content_bytes root_node" and
      eq: "components (process_file dec lang_map target st f) =
             map (\<lambda>kc. if fst kc = cid
                        then (fst kc,
                              extend_component
                                (file_records dec lang_map target
                                   (is_test_file (root_parts f @ rel_parts f))
                                   (path_str (rel_parts f)) content_bytes root_node)
                                (snd kc))
                        else kc)
               (components st)"
      by blast
    show ?thesis
      apply (rule exI [of _ content_bytes], rule exI [of _ root_node])
      unfolding Let_def eq
      using c True
      by (simp add: extend_component_def file_records_def Let_def)
  next
    case False
    from process_file_creates [OF cid False, of dec] obtain content_bytes root_node where
      c: "contents f = Parsed content_bytes root_node" and
      eq: "components (process_file dec lang_map target st f) =
             components st @
             [(cid, extend_component
                      (file_records dec lang_map target (is_test_file (root_parts f @ rel_parts f))
                         (path_str (rel_parts f)) content_bytes root_node)
                      (new_component cid))]"
      by blast
    show ?thesis
      apply (rule exI [of _ content_bytes], rule exI [of _ root_node])
      unfolding Let_def eq
      using c False
      by (simp add: extend_component_def new_component_def file_records_def Let_def)
  qed
  from A B C show ?thesis by blast
qed

text \<open>
  The files \<open>a/__init__.py\<close> (\<open>foo\<close>, \<open>bar\<close>) and \<open>a/mod.py\<close> (\<open>baz\<close>), then two
  files with a class \<open>K\<close>, a function \<open>foo\<close> and a function \<open>test_x\<close>, all under the
  identifier \<open>pkg.a\<close>: the second \<open>foo\<close> and the second \<open>K\<close> are appended, not merged.
\<close>

theorem aggregator_append_only_witness:
  "(let st0 = process_files decode_ascii LANG_MAP ''pkg'' initial_ir [file_foo_bar, file_baz];
        f1 = mixed_file [''a'', ''mod.py''];
        st1 = process_file decode_ascii LANG_MAP ''pkg'' st0 f1;
        st2 = process_files decode_ascii LANG_MAP ''pkg'' st0 [f1, mixed_file [''a.py'']];
        recs = map (top_level_records decode_ascii LANG_MAP ''pkg''
                      (is_test_file (root_parts f1 @ rel_parts f1)) (path_str (rel_parts f1))
                      mixed_src)
                 (children mixed_tree)
    in map fst (components st0) = [''pkg.a''] \<and>
       data_structures (snd (components st0 ! 0)) = [] \<and>
       map fr_name (function_list (snd (components st0 ! 0))) = [''foo'', ''bar'', ''baz''] \<and>
       test_specifications (snd (components st0 ! 0)) = [] \<and>
       component_id_of_file LANG_MAP ''pkg'' f1 = Some ''pkg.a'' \<and>
       length (components st1) = 1 \<and>
       fst (components st1 ! 0) = ''pkg.a'' \<and>
       component_id (snd (components st1 ! 0)) = component_id (snd (components st0 ! 0)) \<and>
       data_structures (snd (components st1 ! 0))
         = data_structures (snd (components st0 ! 0)) @ concat (map fst recs) \<and>
       function_list (snd (components st1 ! 0))
         = function_list (snd (components st0 ! 0)) @ concat (map (\<lambda>r. fst (snd r)) recs) \<and>
       test_specifications (snd (components st1 ! 0))
         = test_specifications (snd (components st0 ! 0))
           @ concat (map (\<lambda>r. snd (snd r)) recs) \<and>
       map sr_name (concat (map fst recs)) = [''K''] \<and>
       map fr_name (concat (map (\<lambda>r. fst (snd r)) recs)) = [''foo''] \<and>
       map ts_scenario (concat (map (\<lambda>r. snd (snd r)) recs)) = [''test_x''] \<and>
       prefix (function_list (snd (components st0 ! 0)))
         (function_list (snd (components st2 ! 0))) \<and>
       map (\<lambda>c. (component_id c, map sr_name (data_structures c),
                   map fr_name (function_list c), map ts_scenario (test_specifications c)))
         (final_components st2)
         = [(''pkg.a'', [''K'', ''K''], [''foo'', ''bar'', ''baz'', ''foo'', ''foo''],
             [''test_x'', ''test_x''])] \<and>
       component_id_of_file LANG_MAP ''pkg'' (constant_file [''docs'', ''a.py'']) = None \<and>
       components (process_file decode_ascii LANG_MAP ''pkg'' st2
                     (constant_file [''docs'', ''a.py''])) = components st2)"
proof -
  let ?st0 = "process_files decode_ascii LANG_MAP ''pkg'' initial_ir [file_foo_bar, file_baz]"
  let ?f1 = "mixed_file [''a'', ''mod.py'']"
  let ?fs = "[?f1, mixed_file [''a.py'']]"
  let ?st1 = "process_file decode_ascii LANG_MAP ''pkg'' ?st0 ?f1"
  let ?st2 = "process_files decode_ascii LANG_MAP ''pkg'' ?st0 ?fs"
  let ?g = "constant_file [''docs'', ''a.py'']"
  let ?recs = "map (top_level_records decode_ascii LANG_MAP ''pkg''
                      (is_test_file (root_parts ?f1 @ rel_parts ?f1)) (path_str (rel_parts ?f1))
                      mixed_src)
                 (children mixed_tree)"
  have keys: "map fst (components ?st0) = [''pkg.a'']" by code_simp
  have ds0: "data_structures (snd (components ?st0 ! 0)) = []" by code_simp
  have fl0: "map fr_name (function_list (snd (components ?st0 ! 0))) = [''foo'', ''bar'', ''baz'']"
    by code_simp
  have ts0: "test_specifications (snd (components ?st0 ! 0)) = []" by code_simp
  have cid: "component_id_of_file LANG_MAP ''pkg'' ?f1 = Some ''pkg.a''" by code_simp
  have r1: "map sr_name (concat (map fst ?recs)) = [''K'']" by code_simp
  have r2: "map fr_name (concat (map (\<lambda>r. fst (snd r)) ?recs)) = [''foo'']" by code_simp
  have r3: "map ts_scenario (concat (map (\<lambda>r. snd (snd r)) ?recs)) = [''test_x'']"
    by code_simp
  have fin: "map (\<lambda>c. (component_id c, map sr_name (data_structures c),
                   map fr_name (function_list c), map ts_scenario (test_specifications c)))
         (final_components ?st2)
         = [(''pkg.a'', [''K'', ''K''], [''foo'', ''bar'', ''baz'', ''foo'', ''foo''],
             [''test_x'', ''test_x''])]" by code_simp
  have none: "component_id_of_file LANG_MAP ''pkg'' ?g = None" by code_simp
  from keys have len: "length (components ?st0) = 1"
    by (metis length_map length_Cons list.size(3) One_nat_def)
  hence i0: "0 < length (components ?st0)" by simp
  from keys len have k0: "fst (components ?st0 ! 0) = ''pkg.a''"
    by (metis i0 nth_map nth_Cons_0)
  from keys have mem: "''pkg.a'' \<in> set (map fst (components ?st0))" by simp
  note inst = aggregator_append_only
    [where i = 0 and st = ?st0 and dec = decode_ascii and lang_map = LANG_MAP
       and target = "''pkg''" and files = ?fs and f = ?f1 and cid = "''pkg.a''"]
  note inst2 = aggregator_append_only
    [where i = 0 and st = ?st2 and dec = decode_ascii and lang_map = LANG_MAP
       and target = "''pkg''" and files = "[]" and f = ?g and cid = "''pkg.a''"]
  from inst i0 have pre: "prefix (function_list (snd (components ?st0 ! 0)))
         (function_list (snd (components ?st2 ! 0)))" by blast
  from inst2 none have skip: "components (process_file decode_ascii LANG_MAP ''pkg'' ?st2 ?g)
      = components ?st2" by blast
  from inst cid obtain cb rn where
    c: "contents ?f1 = Parsed cb rn" and
    L: "let recs = map (top_level_records decode_ascii LANG_MAP ''pkg''
                            (is_test_file (root_parts ?f1 @ rel_parts ?f1))
                            (path_str (rel_parts ?f1)) cb)
                       (children rn);
              before = components ?st0;
              after = components ?st1
          in (''pkg.a'' \<notin> set (map fst before) \<longrightarrow>
                length after = length before + 1 \<and>
                take (length before) after = before \<and>
                fst (last after) = ''pkg.a'' \<and>
                component_id (snd (last after)) = ''pkg.a'' \<and>
                data_structures (snd (last after)) = concat (map fst recs) \<and>
                function_list (snd (last after)) = concat (map (\<lambda>r. fst (snd r)) recs) \<and>
                test_specifications (snd (last after))
                  = concat (map (\<lambda>r. snd (snd r)) recs)) \<and>
             (''pkg.a'' \<in> set (map fst before) \<longrightarrow>
                length after = length before \<and>
                (\<forall>j < length before.
                   fst (after ! j) = fst (before ! j) \<and>
                   (fst (before ! j) \<noteq> ''pkg.a'' \<longrightarrow> after ! j = before ! j) \<and>
                   (fst (before ! j) = ''pkg.a'' \<longrightarrow>
                      component_id (snd (after ! j)) = component_id (snd (before ! j)) \<and>
                      data_structures (snd (after ! j))
                        = data_structures (snd (before ! j)) @ concat (map fst recs) \<and>
                      function_list (snd (after ! j))
                        = function_list (snd (before ! j))
                          @ concat (map (\<lambda>r. fst (snd r)) recs) \<and>
                      test_specifications (snd (after ! j))
                        = test_specifications (snd (before ! j))
                          @ concat (map (\<lambda>r. snd (snd r)) recs))))"
    by blast
  from c have cb: "cb = mixed_src" and rn: "rn = mixed_tree"
    by (simp_all add: mixed_file_def)
  from L mem have len1: "length (components ?st1) = length (components ?st0)"
    and all: "\<forall>j < length (components ?st0).
                   fst (components ?st1 ! j) = fst (components ?st0 ! j) \<and>
                   (fst (components ?st0 ! j) = ''pkg.a'' \<longrightarrow>
                      component_id (snd (components ?st1 ! j))
                        = component_id (snd (components ?st0 ! j)) \<and>
                      data_structures (snd (components ?st1 ! j))
                        = data_structures (snd (components ?st0 ! j)) @ concat (map fst ?recs) \<and>
                      function_list (snd (components ?st1 ! j))
                        = function_list (snd (components ?st0 ! j))
                          @ concat (map (\<lambda>r. fst (snd r)) ?recs) \<and>
                      test_specifications (snd (components ?st1 ! j))
                        = test_specifications (snd (components ?st0 ! j))
                          @ concat (map (\<lambda>r. snd (snd r)) ?recs))"
    unfolding Let_def cb rn by blast+
  from all i0 k0 have
    e0: "fst (components ?st1 ! 0) = ''pkg.a''" and
    e1: "component_id (snd (components ?st1 ! 0)) = component_id (snd (components ?st0 ! 0))" and
    e2: "data_structures (snd (components ?st1 ! 0))
           = data_structures (snd (components ?st0 ! 0)) @ concat (map fst ?recs)" and
    e3: "function_list (snd (components ?st1 ! 0))
           = function_list (snd (components ?st0 ! 0)) @ concat (map (\<lambda>r. fst (snd r)) ?recs)" and
    e4: "test_specifications (snd (components ?st1 ! 0))
           = test_specifications (snd (components ?st0 ! 0))
             @ concat (map (\<lambda>r. snd (snd r)) ?recs)"
    by metis+
  from len len1 have l1: "length (components ?st1) = 1" by simp
  show ?thesis
    unfolding Let_def
    using keys ds0 fl0 ts0 cid l1 e0 e1 e2 e3 e4 r1 r2 r3 pre fin none skip
    by blast
qed

text \<open>
  Claim C6, as stated, has the component created on the first record seen for its
  identifier.  The file \<open>a.py\<close> that holds only \<open>X = 1\<close> yields no record, and the
  component \<open>pkg.a\<close> exists after it, with three empty lists; the records of a later file
  are appended to that component.
\<close>

theorem component_created_before_any_record:
  "final_components
     (process_files decode_ascii LANG_MAP ''pkg'' initial_ir [constant_file [''a.py'']])
   = [\<lparr>component_id = ''pkg.a'', component_type = ''python_module'',
       source_path = ''pkg/a'', summary = ''Code component: pkg.a'',
       data_structures = [], function_list = [], test_specifications = []\<rparr>] \<and>
   map (\<lambda>c. (component_id c, map fr_name (function_list c)))
     (final_components
        (process_files decode_ascii LANG_MAP ''pkg'' initial_ir
           [constant_file [''a.py''], file_foo_bar]))
   = [(''pkg.a'', [''foo'', ''bar''])]"
  by code_simp

subsection \<open>Routing of top-level functions\<close>

lemma top_level_records_not_both:
  "fst (snd (top_level_records dec lang_map target is_test rel content node)) = [] \<or>
   snd (snd (top_level_records dec lang_map target is_test rel content node)) = []"
  by (simp add: top_level_records_def Let_def split: option.splits)

lemma py_contains_sublist: "py_contains s needle = sublist needle s"
  by (auto simp: py_contains_def list_ex_iff in_set_suffixes sublist_altdef')

lemma is_test_file_iff:
  "is_test_file parts =
     (sublist ''test'' (py_lower (file_name parts)) \<or>
      (\<exists>p \<in> set parts. py_lower p = ''test'' \<or> py_lower p = ''tests''))"
  by (auto simp: is_test_file_def py_contains_sublist list_ex_iff)

lemma top_level_records_other:
  assumes "ntype node \<noteq> ''function_definition''" and "ntype node \<noteq> ''class_definition''"
  shows "top_level_records dec lang_map target is_test rel content node = ([], [], [])"
  using assms
  by (simp add: top_level_records_def is_node_type_def node_types_of_def python_node_types_def)

lemma top_level_records_class:
  assumes "ntype node = ''class_definition''"
  shows "fst (snd (top_level_records dec lang_map target is_test rel content node)) = [] \<and>
         snd (snd (top_level_records dec lang_map target is_test rel content node)) = []"
  using assms
  by (simp add: top_level_records_def is_node_type_def node_types_of_def python_node_types_def
      split: option.splits)

lemma top_level_records_function:
  assumes ty: "ntype node = ''function_definition''"
  shows "top_level_records dec lang_map target is_test rel content node =
     (let nm = or_default (get_node_text dec (find_child_by_field_name (Some node) ''name'')
                             content) []
      in if is_test \<or> prefix ''test_'' nm
         then ([], [], extract_py_test_specifications dec node rel content)
         else (case extract_py_function_details dec node rel content
                      (Some (find_component_id_for_lib lang_map rel target)) of
                 None \<Rightarrow> ([], [], [])
               | Some func_data \<Rightarrow> ([], [func_data\<lparr>fr_language := ''python''\<rparr>], [])))"
  using ty
  by (simp add: top_level_records_def is_node_type_def node_types_of_def python_node_types_def
      Let_def startswith_def)

text \<open>
  Claim C10, amended.  The loop looks at the node type of each child of the root only.
  No child adds to both the function list and the test list.  A child of type
  \<open>function_definition\<close> whose name text is not empty adds exactly one record: a test
  specification when the file is a test file (the lower-cased file name contains
  \<open>test\<close>, or a part of the path, lower-cased, is \<open>test\<close> or \<open>tests\<close>) or the name
  starts with \<open>test_\<close>, and a function record otherwise.  A function definition with an
  empty name text adds nothing, and so does a child of any type other than a function or
  class definition, such as the \<open>decorated_definition\<close> that wraps a decorated function.
\<close>

theorem top_level_function_routed_once:
  "(let nm = or_default (get_node_text dec (find_child_by_field_name (Some node) ''name'')
                           content) [];
        r = top_level_records dec lang_map target (is_test_file parts) rel content node;
        test_file = (sublist ''test'' (py_lower (file_name parts)) \<or>
                     (\<exists>p \<in> set parts. py_lower p = ''test'' \<or> py_lower p = ''tests''))
    in (fst (snd r) = [] \<or> snd (snd r) = []) \<and>
       (ntype node = ''function_definition'' \<and> nm \<noteq> [] \<longrightarrow>
          fst r = [] \<and>
          (if test_file \<or> prefix ''test_'' nm
           then fst (snd r) = [] \<and> map ts_scenario (snd (snd r)) = [nm]
           else map fr_name (fst (snd r)) = [nm] \<and> snd (snd r) = [])) \<and>
       (ntype node = ''function_definition'' \<and> nm = [] \<longrightarrow> r = ([], [], [])) \<and>
       (ntype node \<noteq> ''function_definition'' \<and> ntype node \<noteq> ''class_definition'' \<longrightarrow>
          r = ([], [], [])) \<and>
       (ntype node = ''class_definition'' \<longrightarrow> fst (snd r) = [] \<and> snd (snd r) = []))"
proof -
  let ?nm = "or_default (get_node_text dec (find_child_by_field_name (Some node) ''name'')
                           content) []"
  let ?r = "top_level_records dec lang_map target (is_test_file parts) rel content node"
  let ?tf = "sublist ''test'' (py_lower (file_name parts)) \<or>
             (\<exists>p \<in> set parts. py_lower p = ''test'' \<or> py_lower p = ''tests'')"
  have both: "fst (snd ?r) = [] \<or> snd (snd ?r) = []"
    by (rule top_level_records_not_both)
  have named: "fst ?r = [] \<and>
          (if ?tf \<or> prefix ''test_'' ?nm
           then fst (snd ?r) = [] \<and> map ts_scenario (snd (snd ?r)) = [?nm]
           else map fr_name (fst (snd ?r)) = [?nm] \<and> snd (snd ?r) = [])"
    if "ntype node = ''function_definition''" and "?nm \<noteq> []"
    using that
    by (simp add: top_level_records_function is_test_file_iff [symmetric] Let_def
        extract_py_test_specifications_def extract_py_function_details_def)
  have nameless: "?r = ([], [], [])"
    if "ntype node = ''function_definition''" and "?nm = []"
    using that
    by (simp add: top_level_records_function Let_def
        extract_py_test_specifications_def extract_py_function_details_def)
  have other: "?r = ([], [], [])"
    if "ntype node \<noteq> ''function_definition''" and "ntype node \<noteq> ''class_definition''"
    using that by (rule top_level_records_other)
  have cls: "fst (snd ?r) = [] \<and> snd (snd ?r) = []" if "ntype node = ''class_definition''"
    using that by (rule top_level_records_class)
  from both named nameless other cls show ?thesis
    unfolding Let_def by blast
qed


theorem top_level_function_routed_once_witness:
  "map fr_name (fst (snd (top_level_records decode_ascii LANG_MAP ''pkg''
      (is_test_file [''/'', ''repo'', ''a'', ''util.py'']) ''a/util.py''
      (''def foo(): pass'' @ [CHR 0x0A]) (simple_def 0 0)))) = [''foo''] \<and>
   snd (snd (top_level_records decode_ascii LANG_MAP ''pkg''
      (is_test_file [''/'', ''repo'', ''a'', ''util.py'']) ''a/util.py''
      (''def foo(): pass'' @ [CHR 0x0A]) (simple_def 0 0))) = [] \<and>
   map ts_scenario (snd (snd (top_level_records decode_ascii LANG_MAP ''pkg''
      (is_test_file [''/'', ''repo'', ''Tests'', ''util.py'']) ''Tests/util.py''
      (''def foo(): pass'' @ [CHR 0x0A]) (simple_def 0 0)))) = [''foo''] \<and>
   fst (snd (top_level_records decode_ascii LANG_MAP ''pkg''
      (is_test_file [''/'', ''repo'', ''Tests'', ''util.py'']) ''Tests/util.py''
      (''def foo(): pass'' @ [CHR 0x0A]) (simple_def 0 0))) = [] \<and>
   top_level_records decode_ascii LANG_MAP ''pkg''
      (is_test_file [''/'', ''repo'', ''a'', ''util.py'']) ''a/util.py''
      decorated_src decorated_def = ([], [], [])"
proof -
  have ty: "ntype (simple_def 0 0) = ''function_definition''"
    by (simp add: simple_def_def)
  have nm: "or_default (get_node_text decode_ascii
              (find_child_by_field_name (Some (simple_def 0 0)) ''name'')
              (''def foo(): pass'' @ [CHR 0x0A])) [] = ''foo''"
    by code_simp
  have "\<not> is_test_file [''/'', ''repo'', ''a'', ''util.py'']"
    by code_simp
  then have plain:
    "\<not> (sublist ''test'' (py_lower (file_name [''/'', ''repo'', ''a'', ''util.py''])) \<or>
        (\<exists>p \<in> set [''/'', ''repo'', ''a'', ''util.py''].
            py_lower p = ''test'' \<or> py_lower p = ''tests''))"
    unfolding is_test_file_iff .
  have "is_test_file [''/'', ''repo'', ''Tests'', ''util.py'']"
    by code_simp
  then have tests:
    "sublist ''test'' (py_lower (file_name [''/'', ''repo'', ''Tests'', ''util.py''])) \<or>
     (\<exists>p \<in> set [''/'', ''repo'', ''Tests'', ''util.py''].
         py_lower p = ''test'' \<or> py_lower p = ''tests'')"
    unfolding is_test_file_iff .
  have name: "\<not> prefix ''test_'' ''foo''"
    by simp
  have dty: "ntype decorated_def \<noteq> ''function_definition''"
            "ntype decorated_def \<noteq> ''class_definition''"
    by (simp_all add: decorated_def_def)
  from top_level_function_routed_once [of decode_ascii "simple_def 0 0"
      "''def foo(): pass'' @ [CHR 0x0A]" LANG_MAP "''pkg''"
      "[''/'', ''repo'', ''a'', ''util.py'']" "''a/util.py''"]
  have a: "map fr_name (fst (snd (top_level_records decode_ascii LANG_MAP ''pkg''
      (is_test_file [''/'', ''repo'', ''a'', ''util.py'']) ''a/util.py''
      (''def foo(): pass'' @ [CHR 0x0A]) (simple_def 0 0)))) = [''foo''] \<and>
   snd (snd (top_level_records decode_ascii LANG_MAP ''pkg''
      (is_test_file [''/'', ''repo'', ''a'', ''util.py'']) ''a/util.py''
      (''def foo(): pass'' @ [CHR 0x0A]) (simple_def 0 0))) = []"
    unfolding Let_def nm using ty plain name by simp
  from top_level_function_routed_once [of decode_ascii "simple_def 0 0"
      "''def foo(): pass'' @ [CHR 0x0A]" LANG_MAP "''pkg''"
      "[''/'', ''repo'', ''Tests'', ''util.py'']" "''Tests/util.py''"]
  have b: "map ts_scenario (snd (snd (top_level_records decode_ascii LANG_MAP ''pkg''
      (is_test_file [''/'', ''repo'', ''Tests'', ''util.py'']) ''Tests/util.py''
      (''def foo(): pass'' @ [CHR 0x0A]) (simple_def 0 0)))) = [''foo''] \<and>
   fst (snd (top_level_records decode_ascii LANG_MAP ''pkg''
      (is_test_file [''/'', ''repo'', ''Tests'', ''util.py'']) ''Tests/util.py''
      (''def foo(): pass'' @ [CHR 0x0A]) (simple_def 0 0))) = []"
    unfolding Let_def nm using ty tests by simp
  from top_level_function_routed_once [of decode_ascii decorated_def decorated_src
      LANG_MAP "''pkg''" "[''/'', ''repo'', ''a'', ''util.py'']" "''a/util.py''"]
  have c: "top_level_records decode_ascii LANG_MAP ''pkg''
      (is_test_file [''/'', ''repo'', ''a'', ''util.py'']) ''a/util.py''
      decorated_src decorated_def = ([], [], [])"
    unfolding Let_def using dty by blast
  from a b c show ?thesis by blast
qed

text \<open>
  Claim C10, as stated, on the file \<open>@dec\<close>, \<open>def foo(): pass\<close>: the top-level function
  \<open>foo\<close> is recorded neither as a function nor as a test specification, in a plain file
  and in a test file alike.
\<close>

theorem decorated_function_in_neither_list:
  "map (\<lambda>c. (map fr_name (function_list c), map ts_scenario (test_specifications c)))
     (final_components
        (process_files decode_ascii LANG_MAP ''pkg'' initial_ir [decorated_file ''util.py'']))
     = [([], [])] \<and>
   map (\<lambda>c. (map fr_name (function_list c), map ts_scenario (test_specifications c)))
     (final_components
        (process_files decode_ascii LANG_MAP ''pkg'' initial_ir
           [decorated_file ''test_util.py'']))
     = [([], [])]"
  by code_simp

subsection \<open>Qualified names of nested declarations\<close>

text \<open>
  With a non-empty parent name that does not end with the item name, the builder appends
  the item name to the parent name, whatever the file path is.
\<close>

lemma build_python_fqn_appends_to_parent:
  assumes "p \<noteq> []" and "\<not> endswith p n"
  shows "build_python_fqn path n (Some p) = p @ ''.'' @ n"
  using assms by (simp add: build_python_fqn_def Let_def)

text \<open>
  The path operations on a file \<open>sub/m.py\<close> whose module name \<open>m\<close> is not fixed:
  splitting, the suffix and the stem of the file name, the component identifier and the
  module base path.
\<close>

lemma split_on_without: "c \<notin> set s \<Longrightarrow> split_on c s = [s]"
  by (induction s) auto

lemma split_on_at: "c \<notin> set s \<Longrightarrow> split_on c (s @ c # t) = s # split_on c t"
  by (induction s) (auto split: list.splits simp: split_on_not_Nil)

lemma replace_sep_without: "CHR ''/'' \<notin> set s \<Longrightarrow> replace_sep s = s"
  by (induction s) (auto simp: replace_sep_def)

lemma replace_sep_append: "replace_sep (s @ t) = replace_sep s @ replace_sep t"
  by (simp add: replace_sep_def)

lemma rfind_dot_py:
  assumes "name = m @ ''.py''"
  shows "rfind (CHR ''.'') name = Some (length m)"
proof -
  have "[0..<length name] = [0..<length m] @ [length m, Suc (length m), Suc (Suc (length m))]"
    unfolding assms by (simp add: upt_rec [of "length m"] upt_rec [of "Suc (length m)"]
          upt_rec [of "Suc (Suc (length m))"] upt_add_eq_append [of 0 "length m" 3, simplified])
  thus ?thesis
    unfolding rfind_def assms by (simp add: nth_append)
qed

lemma path_stem_dot_py:
  assumes "name = m @ ''.py''" and "m \<noteq> []"
  shows "path_stem name = m"
  using assms(2) by (simp add: path_stem_def rfind_dot_py [OF assms(1)]) (simp add: assms(1))

lemma path_suffix_dot_py:
  assumes "name = m @ ''.py''" and "m \<noteq> []"
  shows "path_suffix name = ''.py''"
  using assms(2) by (simp add: path_suffix_def rfind_dot_py [OF assms(1)]) (simp add: assms(1))

lemma path_parts_sub:
  assumes name: "name = m @ ''.py''" and rel: "rel = ''sub'' @ CHR ''/'' # name"
    and "m \<noteq> []" and "CHR ''/'' \<notin> set m"
  shows "path_parts rel = [''sub'', name]"
proof -
  have "split_on (CHR ''/'') rel = ''sub'' # split_on (CHR ''/'') name"
    unfolding rel by (rule split_on_at) simp
  moreover have "split_on (CHR ''/'') name = [name]"
    using assms(4) by (intro split_on_without) (simp add: name)
  moreover have "name \<noteq> ''.''" "name \<noteq> []" using assms(3) by (cases m; simp add: name)+
  ultimately show ?thesis
    by (simp add: path_parts_def)
qed

lemma find_component_id_for_lib_sub:
  assumes name: "name = m @ ''.py''" and rel: "rel = ''sub'' @ CHR ''/'' # name"
    and "m \<noteq> []" and "CHR ''/'' \<notin> set m"
    and "m \<notin> set [''__init__'', ''mod'', ''lib'']"
  shows "find_component_id_for_lib LANG_MAP rel ''pkg'' = ''pkg.sub.'' @ m"
proof -
  have sfx: "endswith name ''.py''"
    unfolding endswith_def name by (rule suffixI) (rule refl)
  show ?thesis
    using assms(5) sfx
    by (simp add: find_component_id_for_lib_def path_parts_sub [OF name rel assms(3,4)] Let_def
          LANG_MAP_def path_stem_dot_py [OF name assms(3)])
qed

lemma base_module_path_sub:
  assumes name: "name = m @ ''.py''" and rel: "rel = ''sub'' @ CHR ''/'' # name"
    and "m \<noteq> []" and "CHR ''/'' \<notin> set m" and "CHR ''.'' \<notin> set m" and "m \<noteq> ''__init__''"
  shows "base_module_path rel = ''sub.'' @ m"
proof -
  have r: "replace_sep rel = ''sub'' @ CHR ''.'' # (m @ CHR ''.'' # ''py'')"
    unfolding rel name using replace_sep_without [OF assms(4)]
    by (simp add: replace_sep_append) (simp add: replace_sep_def)
  have "split_on (CHR ''.'') (''sub'' @ CHR ''.'' # (m @ CHR ''.'' # ''py''))
        = ''sub'' # split_on (CHR ''.'') (m @ CHR ''.'' # ''py'')"
    by (rule split_on_at) simp
  moreover have "split_on (CHR ''.'') (m @ CHR ''.'' # ''py'') = m # split_on (CHR ''.'') ''py''"
    using assms(5) by (rule split_on_at)
  moreover have "split_on (CHR ''.'') ''py'' = [''py'']" by simp
  ultimately have s: "split_on (CHR ''.'') (replace_sep rel) = [''sub'', m, ''py'']"
    by (simp only: r)
  show ?thesis
    using assms(3,6) by (simp add: base_module_path_def s Let_def)
qed

lemma build_python_fqn_other_base:
  assumes "base_module_path rel = b" and "\<not> prefix b p" and "p \<noteq> []"
  shows "build_python_fqn rel n (Some p) = p @ ''.'' @ n"
  using assms by (simp add: build_python_fqn_def Let_def startswith_def)

lemma outer_foo_records:
  "map (\<lambda>s. (sr_qualified_name s, map fr_qualified_name (sr_methods s)))
     (fst (file_records decode_ascii lang_map target is_test rel outer_foo_src outer_foo_tree))
   = [(build_python_fqn rel ''Outer'' (Some (find_component_id_for_lib lang_map rel target)),
       [build_python_fqn rel ''Foo''
          (Some (build_python_fqn rel ''Outer''
                   (Some (find_component_id_for_lib lang_map rel target))))])]"
  by (simp add: file_records_def top_level_records_def extract_py_data_structure_def
        extract_py_function_details_def outer_foo_tree_def outer_foo_src_def module_node_def
        tree_defs is_node_type_def node_types_of_def python_node_types_def
        List.map_filter_def Let_def)


lemma ignore_dirs_no_py: "list_all (\<lambda>d. \<not> suffix ''.py'' d) IGNORE_DIRS"
  by code_simp

lemma ignore_files_py: "filter (suffix ''.py'') IGNORE_FILES = [''setup.py'']"
  by code_simp

lemma component_id_of_file_sub:
  assumes name: "name = m @ ''.py''"
    and "m \<noteq> []" and "CHR ''/'' \<notin> set m" and "m \<noteq> ''setup''"
  shows "component_id_of_file LANG_MAP ''pkg'' (outer_foo_file [''sub''] name) =
         Some (find_component_id_for_lib LANG_MAP (''sub'' @ CHR ''/'' # name) ''pkg'')"
proof -
  have sfx: "suffix ''.py'' name"
    unfolding name by (rule suffixI) (rule refl)
  have d1: "name \<notin> set IGNORE_DIRS"
    using ignore_dirs_no_py sfx by (auto simp: list_all_iff)
  have d2: "''sub'' \<notin> set IGNORE_DIRS"
    by code_simp
  have "name \<in> set IGNORE_FILES \<Longrightarrow> name \<in> set (filter (suffix ''.py'') IGNORE_FILES)"
    using sfx by simp
  hence "name \<in> set IGNORE_FILES \<Longrightarrow> m @ ''.py'' = ''setup'' @ ''.py''"
    by (simp add: ignore_files_py name)
  hence f1: "name \<notin> set IGNORE_FILES"
    using assms(4) by (metis append_same_eq)
  have ne: "name \<noteq> ''/''" "name \<noteq> []"
    using assms(2) by (cases m; simp add: name)+
  have fn: "file_name ([''/'', ''work''] @ [''sub'', name]) = name"
    using ne by (simp add: file_name_def)
  have low: "py_lower ''.py'' = ''.py''" by code_simp
  have lang: "map_of LANG_MAP (py_lower (path_suffix name)) = Some ''python''"
    by (simp add: path_suffix_dot_py [OF name assms(2)] low LANG_MAP_def)
  have ps: "path_str [''sub'', name] = ''sub'' @ CHR ''/'' # name"
    by (simp add: path_str_def)
  have rp: "rel_parts (outer_foo_file [''sub''] name) = [''sub'', name]"
       "root_parts (outer_foo_file [''sub''] name) = [''/'', ''work'']"
       "contents (outer_foo_file [''sub''] name) = Parsed outer_foo_src outer_foo_tree"
    by (simp_all add: outer_foo_file_def)
  show ?thesis
    unfolding component_id_of_file_def rp fn ps
    using d1 d2 f1 lang by simp
qed

text \<open>
  Claim C3, as stated, for the file \<open>mod.py\<close> with class \<open>Outer\<close> and method \<open>Foo\<close>,
  analysed with target name \<open>pkg\<close>, at the relative path \<open>pkg/sub/mod.py\<close> and at the
  relative path \<open>sub/mod.py\<close>: in neither case is the method's qualified name
  \<open>pkg.sub.mod.Outer.Foo\<close>.  The file name \<open>mod.py\<close> is what makes the difference:
  \<open>find_component_id_for_lib\<close> drops a final segment \<open>mod\<close>.
\<close>

theorem nested_fqn_not_as_claimed:
  "map (\<lambda>s. map fr_qualified_name (sr_methods s))
     (concat (map data_structures (final_components
        (process_files decode_ascii LANG_MAP ''pkg'' initial_ir
           [outer_foo_file [''pkg'', ''sub''] ''mod.py'']))))
     \<noteq> [[''pkg.sub.mod.Outer.Foo'']] \<and>
   map (\<lambda>s. map fr_qualified_name (sr_methods s))
     (concat (map data_structures (final_components
        (process_files decode_ascii LANG_MAP ''pkg'' initial_ir
           [outer_foo_file [''sub''] ''mod.py'']))))
     \<noteq> [[''pkg.sub.mod.Outer.Foo'']]"
  by code_simp

text \<open>
  Claim C3, amended.  Let the file \<open>sub/m.py\<close> below the analysis root hold a class
  \<open>Outer\<close> with a method \<open>Foo\<close>, and let the target name be \<open>pkg\<close>.  For every module
  name \<open>m\<close> that is not empty, holds no separator and no dot, and is none of
  \<open>__init__\<close>, \<open>mod\<close>, \<open>lib\<close> and \<open>setup\<close>, the component is \<open>pkg.sub.m\<close>, the
  class is named \<open>pkg.sub.m.Outer\<close> and the method \<open>pkg.sub.m.Outer.Foo\<close>.  For the
  module names \<open>__init__\<close>, \<open>mod\<close> and \<open>lib\<close> the component is \<open>pkg.sub\<close>, the class
  is named \<open>pkg.sub.Outer\<close> and the method \<open>pkg.sub.Outer.Foo\<close>.  The file
  \<open>setup.py\<close> is ignored and yields no component.
\<close>

theorem nested_fqn_from_component_id:
  "(m \<noteq> [] \<and> CHR ''/'' \<notin> set m \<and> CHR ''.'' \<notin> set m \<and>
    m \<notin> set [''__init__'', ''mod'', ''lib'', ''setup''] \<longrightarrow>
      map (\<lambda>c. (component_id c,
                 map (\<lambda>s. (sr_qualified_name s, map fr_qualified_name (sr_methods s)))
                   (data_structures c)))
        (final_components
           (process_files decode_ascii LANG_MAP ''pkg'' initial_ir
              [outer_foo_file [''sub''] (m @ ''.py'')]))
      = [(''pkg.sub.'' @ m,
          [(''pkg.sub.'' @ m @ ''.Outer'', [''pkg.sub.'' @ m @ ''.Outer.Foo''])])]) \<and>
   (m \<in> set [''__init__'', ''mod'', ''lib''] \<longrightarrow>
      map (\<lambda>c. (component_id c,
                 map (\<lambda>s. (sr_qualified_name s, map fr_qualified_name (sr_methods s)))
                   (data_structures c)))
        (final_components
           (process_files decode_ascii LANG_MAP ''pkg'' initial_ir
              [outer_foo_file [''sub''] (m @ ''.py'')]))
      = [(''pkg.sub'', [(''pkg.sub.Outer'', [''pkg.sub.Outer.Foo''])])]) \<and>
   (m = ''setup'' \<longrightarrow>
      final_components
        (process_files decode_ascii LANG_MAP ''pkg'' initial_ir
           [outer_foo_file [''sub''] (m @ ''.py'')]) = [])"
proof -
  have A: "map (\<lambda>c. (component_id c,
                 map (\<lambda>s. (sr_qualified_name s, map fr_qualified_name (sr_methods s)))
                   (data_structures c)))
        (final_components
           (process_files decode_ascii LANG_MAP ''pkg'' initial_ir
              [outer_foo_file [''sub''] (m @ ''.py'')]))
      = [(''pkg.sub.'' @ m,
          [(''pkg.sub.'' @ m @ ''.Outer'', [''pkg.sub.'' @ m @ ''.Outer.Foo''])])]"
    if ne: "m \<noteq> []" and sl: "CHR ''/'' \<notin> set m" and dt: "CHR ''.'' \<notin> set m"
      and ns: "m \<notin> set [''__init__'', ''mod'', ''lib'', ''setup'']"
  proof -
    define name where "name = m @ ''.py''"
    define rel where "rel = ''sub'' @ CHR ''/'' # name"
    define f where "f = outer_foo_file [''sub''] name"
    define cid where "cid = find_component_id_for_lib LANG_MAP rel ''pkg''"
    from ns have ns1: "m \<notin> set [''__init__'', ''mod'', ''lib'']" and ns2: "m \<noteq> ''setup''"
      and ns3: "m \<noteq> ''__init__''"
      by simp_all
    have cid_eq: "cid = ''pkg.sub.'' @ m"
      unfolding cid_def by (rule find_component_id_for_lib_sub [OF name_def rel_def ne sl ns1])
    have base: "base_module_path rel = ''sub.'' @ m"
      by (rule base_module_path_sub [OF name_def rel_def ne sl dt ns3])
    have cof: "component_id_of_file LANG_MAP ''pkg'' f = Some cid"
      unfolding f_def cid_def rel_def
      by (rule component_id_of_file_sub [OF name_def ne sl ns2])
    have new: "cid \<notin> set (map fst (components initial_ir))"
      by (simp add: initial_ir_def)
    have rp: "path_str (rel_parts f) = rel"
       "contents f = Parsed outer_foo_src outer_foo_tree"
      by (simp_all add: f_def outer_foo_file_def path_str_def rel_def)
    from process_file_creates [OF cof new, of decode_ascii] rp
    have comps: "components (process_file decode_ascii LANG_MAP ''pkg'' initial_ir f) =
             [(cid, extend_component
                      (file_records decode_ascii LANG_MAP ''pkg''
                         (is_test_file (root_parts f @ rel_parts f))
                         rel outer_foo_src outer_foo_tree)
                      (new_component cid))]"
      by (simp add: initial_ir_def)
    have q1: "build_python_fqn rel ''Outer'' (Some cid) = cid @ ''.Outer''"
      using build_python_fqn_other_base [OF base, of cid "''Outer''"] by (simp add: cid_eq)
    have q2: "build_python_fqn rel ''Foo'' (Some (cid @ ''.Outer'')) = (cid @ ''.Outer'') @ ''.Foo''"
      using build_python_fqn_other_base [OF base, of "cid @ ''.Outer''" "''Foo''"]
      by (simp add: cid_eq)
    have recs: "map (\<lambda>s. (sr_qualified_name s, map fr_qualified_name (sr_methods s)))
        (fst (file_records decode_ascii LANG_MAP ''pkg''
                (is_test_file (root_parts f @ rel_parts f)) rel outer_foo_src outer_foo_tree))
        = [(cid @ ''.Outer'', [(cid @ ''.Outer'') @ ''.Foo''])]"
      unfolding outer_foo_records cid_def [symmetric] q1 q2 by (rule refl)
    have "map (\<lambda>c. (component_id c,
                 map (\<lambda>s. (sr_qualified_name s, map fr_qualified_name (sr_methods s)))
                   (data_structures c)))
        (final_components (process_files decode_ascii LANG_MAP ''pkg'' initial_ir [f]))
      = [(cid, [(cid @ ''.Outer'', [(cid @ ''.Outer'') @ ''.Foo''])])]"
      using recs
      by (simp add: final_components_def process_files_def comps extend_component_def
            new_component_def)
    thus ?thesis
      by (simp add: f_def name_def cid_eq)
  qed
  have B: "map (\<lambda>c. (component_id c,
                 map (\<lambda>s. (sr_qualified_name s, map fr_qualified_name (sr_methods s)))
                   (data_structures c)))
        (final_components
           (process_files decode_ascii LANG_MAP ''pkg'' initial_ir
              [outer_foo_file [''sub''] (m @ ''.py'')]))
      = [(''pkg.sub'', [(''pkg.sub.Outer'', [''pkg.sub.Outer.Foo''])])]"
    if "m \<in> set [''__init__'', ''mod'', ''lib'']"
  proof -
    have b: "map (\<lambda>c. (component_id c,
                 map (\<lambda>s. (sr_qualified_name s, map fr_qualified_name (sr_methods s)))
                   (data_structures c)))
        (final_components
           (process_files decode_ascii LANG_MAP ''pkg'' initial_ir
              [outer_foo_file [''sub''] n]))
      = [(''pkg.sub'', [(''pkg.sub.Outer'', [''pkg.sub.Outer.Foo''])])]"
      if "n \<in> set [''__init__.py'', ''mod.py'', ''lib.py'']" for n
    proof -
      have "list_all (\<lambda>n. map (\<lambda>c. (component_id c,
                 map (\<lambda>s. (sr_qualified_name s, map fr_qualified_name (sr_methods s)))
                   (data_structures c)))
        (final_components
           (process_files decode_ascii LANG_MAP ''pkg'' initial_ir
              [outer_foo_file [''sub''] n]))
      = [(''pkg.sub'', [(''pkg.sub.Outer'', [''pkg.sub.Outer.Foo''])])])
         [''__init__.py'', ''mod.py'', ''lib.py'']"
        by code_simp
      with that show ?thesis
        unfolding list_all_iff by blast
    qed
    from that have "m @ ''.py'' \<in> set [''__init__.py'', ''mod.py'', ''lib.py'']"
      by auto
    thus ?thesis by (rule b)
  qed
  have C: "final_components
        (process_files decode_ascii LANG_MAP ''pkg'' initial_ir
           [outer_foo_file [''sub''] (m @ ''.py'')]) = []"
    if "m = ''setup''"
  proof -
    have "final_components
        (process_files decode_ascii LANG_MAP ''pkg'' initial_ir
           [outer_foo_file [''sub''] ''setup.py'']) = []"
      by code_simp
    thus ?thesis by (simp add: that)
  qed
  from A B C show ?thesis by blast
qed

text \<open>The files \<open>sub/util.py\<close>, \<open>sub/mod.py\<close> and \<open>sub/setup.py\<close>.\<close>

theorem nested_fqn_from_component_id_witness:
  "map (\<lambda>c. (component_id c,
              map (\<lambda>s. (sr_qualified_name s, map fr_qualified_name (sr_methods s)))
                (data_structures c)))
     (final_components
        (process_files decode_ascii LANG_MAP ''pkg'' initial_ir
           [outer_foo_file [''sub''] ''util.py'']))
     = [(''pkg.sub.util'', [(''pkg.sub.util.Outer'', [''pkg.sub.util.Outer.Foo''])])] \<and>
   map (\<lambda>c. (component_id c,
              map (\<lambda>s. (sr_qualified_name s, map fr_qualified_name (sr_methods s)))
                (data_structures c)))
     (final_components
        (process_files decode_ascii LANG_MAP ''pkg'' initial_ir
           [outer_foo_file [''sub''] ''mod.py'']))
     = [(''pkg.sub'', [(''pkg.sub.Outer'', [''pkg.sub.Outer.Foo''])])] \<and>
   final_components
     (process_files decode_ascii LANG_MAP ''pkg'' initial_ir
        [outer_foo_file [''sub''] ''setup.py'']) = []"
  using nested_fqn_from_component_id [of "''util''"] nested_fqn_from_component_id [of "''mod''"]
    nested_fqn_from_component_id [of "''setup''"]
  by simp

text \<open>
  The builder alone, called without a parent name for the class and with the class's name
  for the member, gives the dotted module path and the names.
\<close>

lemma build_python_fqn_without_parent:
  "build_python_fqn ''pkg/sub/mod.py'' ''Outer'' None = ''pkg.sub.mod.Outer'' \<and>
   build_python_fqn ''pkg/sub/mod.py'' ''Foo'' (Some ''pkg.sub.mod.Outer'')
     = ''pkg.sub.mod.Outer.Foo''"
  by code_simp

end
